theory Spec2Isabelle
  imports Main "HOL-Library.Sublist"
begin

section \<open>Python strings\<close>

text \<open>
  A Python \<open>str\<close> is modelled as a \<open>string\<close>: every \<open>char\<close> stands for one code point
  below 256, so \<open>length\<close> is Python's \<open>len\<close> on such texts. The operations below are the
  \<open>str\<close> methods that \<open>dpa_analyzer.py\<close> calls, written out on that range.
\<close>

definition is_space :: "char \<Rightarrow> bool" where
  \<comment> \<open>\<open>str.isspace\<close> on one code point below 256\<close>
  "is_space c =
     (let n = (of_char c :: nat)
      in (9 \<le> n \<and> n \<le> 13) \<or> (28 \<le> n \<and> n \<le> 32) \<or> n = 133 \<or> n = 160)"

definition str_strip :: "string \<Rightarrow> string" where
  \<comment> \<open>\<open>s.strip()\<close>\<close>
  "str_strip s = rev (dropWhile is_space (rev (dropWhile is_space s)))"

definition char_lower :: "char \<Rightarrow> char" where
  \<comment> \<open>\<open>c.lower()\<close>: A-Z, and the capital letters of Latin-1 (0xC0-0xDE without 0xD7)\<close>
  "char_lower c =
     (let n = (of_char c :: nat)
      in if (65 \<le> n \<and> n \<le> 90) \<or> (192 \<le> n \<and> n \<le> 222 \<and> n \<noteq> 215)
         then char_of (n + 32) else c)"

definition str_lower :: "string \<Rightarrow> string" where
  \<comment> \<open>\<open>s.lower()\<close>\<close>
  "str_lower s = map char_lower s"

definition is_ascii_letter :: "char \<Rightarrow> bool" where
  "is_ascii_letter c =
     (let n = (of_char c :: nat) in (65 \<le> n \<and> n \<le> 90) \<or> (97 \<le> n \<and> n \<le> 122))"

definition char_upper :: "char \<Rightarrow> char" where
  \<comment> \<open>\<open>c.upper()\<close> on ASCII\<close>
  "char_upper c =
     (let n = (of_char c :: nat) in if 97 \<le> n \<and> n \<le> 122 then char_of (n - 32) else c)"

fun title_from :: "bool \<Rightarrow> string \<Rightarrow> string" where
  \<comment> \<open>the loop of \<open>str.title\<close>; the flag says whether the previous character was cased\<close>
  "title_from prev [] = []"
| "title_from prev (c # cs) =
     (if is_ascii_letter c
      then (if prev then char_lower c else char_upper c) # title_from True cs
      else c # title_from False cs)"

definition str_title :: "string \<Rightarrow> string" where
  \<comment> \<open>\<open>s.title()\<close>; the analyzer applies it to its nine ASCII category names only\<close>
  "str_title s = title_from False s"

definition str_endswith :: "string \<Rightarrow> string \<Rightarrow> bool" where
  \<comment> \<open>\<open>s.endswith(suf)\<close>\<close>
  "str_endswith s suf = (length suf \<le> length s \<and> drop (length s - length suf) s = suf)"

fun str_contains :: "string \<Rightarrow> string \<Rightarrow> bool" where
  \<comment> \<open>\<open>kw in s\<close>: \<open>kw\<close> occurs in \<open>s\<close> as a contiguous substring\<close>
  "str_contains kw [] = (kw = [])"
| "str_contains kw (c # cs) = (take (length kw) (c # cs) = kw \<or> str_contains kw cs)"

fun str_find :: "string \<Rightarrow> char \<Rightarrow> int" where
  \<comment> \<open>\<open>s.find(c)\<close> for a one-character needle: the first index, or -1\<close>
  "str_find [] c = -1"
| "str_find (x # xs) c =
     (if x = c then 0 else (let r = str_find xs c in if r = -1 then -1 else r + 1))"

fun str_rfind :: "string \<Rightarrow> char \<Rightarrow> int" where
  \<comment> \<open>\<open>s.rfind(c)\<close> for a one-character needle: the last index, or -1\<close>
  "str_rfind [] c = -1"
| "str_rfind (x # xs) c =
     (let r = str_rfind xs c in if r \<noteq> -1 then r + 1 else if x = c then 0 else -1)"

definition str_slice :: "string \<Rightarrow> int \<Rightarrow> int \<Rightarrow> string" where
  \<comment> \<open>\<open>s[i:j]\<close>: a negative bound counts from the end, every bound is clipped to the text\<close>
  "str_slice s i j =
     (let n = int (length s);
          lo = (if i < 0 then max 0 (n + i) else min i n);
          hi = (if j < 0 then max 0 (n + j) else min j n)
      in take (nat (hi - lo)) (drop (nat lo) s))"

fun replace_newlines :: "string \<Rightarrow> string" where
  \<comment> \<open>\<open>s.replace('\n', ' ')\<close>\<close>
  "replace_newlines [] = []"
| "replace_newlines (c # cs) =
     (if c = CHR 0x0A then CHR '' '' else c) # replace_newlines cs"

fun replace_double_spaces :: "string \<Rightarrow> string" where
  \<comment> \<open>\<open>s.replace('  ', ' ')\<close>: one pass, left to right, over non-overlapping pairs\<close>
  "replace_double_spaces (a # b # cs) =
     (if a = CHR '' '' \<and> b = CHR '' '' then CHR '' '' # replace_double_spaces cs
      else a # replace_double_spaces (b # cs))"
| "replace_double_spaces cs = cs"

fun str_of_nat :: "nat \<Rightarrow> string" where
  \<comment> \<open>the decimal text an f-string gives a non-negative \<open>int\<close>\<close>
  "str_of_nat n =
     (if n < 10 then [''0123456789'' ! n]
      else str_of_nat (n div 10) @ [''0123456789'' ! (n mod 10)])"

section \<open>JSON values and Python dictionaries\<close>

text \<open>
  The analyzer's results are Python dictionaries built from literals or returned by
  \<open>json.loads\<close>, so they are modelled as JSON values. An object keeps its keys in
  insertion order, as a Python \<open>dict\<close> does. A Python \<open>float\<close> is carried as its decimal
  text: the analyzer does no arithmetic on floats.
\<close>

datatype json =
    JNull
  | JBool bool
  | JInt int
  | JFloat string
  | JStr string
  | JArr "json list"
  | JObj "(string \<times> json) list"

fun dict_get :: "(string \<times> json) list \<Rightarrow> string \<Rightarrow> json option" where
  \<comment> \<open>\<open>d.get(k)\<close>\<close>
  "dict_get [] k = None"
| "dict_get ((k', v) # kvs) k = (if k' = k then Some v else dict_get kvs k)"

fun dict_set :: "(string \<times> json) list \<Rightarrow> string \<Rightarrow> json \<Rightarrow> (string \<times> json) list" where
  \<comment> \<open>\<open>d[k] = v\<close>: an existing key keeps its place, a new key goes last\<close>
  "dict_set [] k v = [(k, v)]"
| "dict_set ((k', v') # kvs) k v =
     (if k' = k then (k, v) # kvs else (k', v') # dict_set kvs k v)"

definition field :: "json \<Rightarrow> string \<Rightarrow> json option" where
  \<comment> \<open>reading \<open>j[k]\<close> where \<open>j\<close> is a dictionary that has the key\<close>
  "field j k = (case j of JObj kvs \<Rightarrow> dict_get kvs k | _ \<Rightarrow> None)"

section \<open>The rule-based fallback analysis\<close>

definition key_terms :: "(string \<times> string list) list" where
  \<comment> \<open>the dictionary \<open>key_terms\<close> of \<open>_fallback_analysis\<close>, in its insertion order\<close>
  "key_terms =
    [(''data controller'', [''data controller'', ''controller'']),
     (''data processor'', [''data processor'', ''processor'']),
     (''personal data'', [''personal data'', ''personally identifiable'']),
     (''gdpr'', [''gdpr'', ''general data protection regulation'']),
     (''security measures'', [''security measures'', ''technical safeguards'', ''encryption'']),
     (''data breach'', [''data breach'', ''breach notification'', ''security incident'']),
     (''data subject rights'', [''data subject rights'', ''right to access'', ''right to erasure'']),
     (''retention'', [''retention period'', ''data retention'', ''deletion'']),
     (''subprocessor'', [''subprocessor'', ''sub-processor'', ''third party''])]"

definition finding_mark :: string where
  \<comment> \<open>the three characters before the category name in the finding's f-string; they lie
      beyond code point 255 and are spelled here as the bytes the source file holds\<close>
  "finding_mark = [CHR 0xC3, CHR 0xA2, CHR 0xC5, CHR 0x93, CHR 0xE2, CHR 0x80, CHR 0x9C]"

definition found :: "string list \<Rightarrow> string \<Rightarrow> bool" where
  \<comment> \<open>\<open>any(keyword in text_lower for keyword in keywords)\<close>\<close>
  "found keywords text_lower = list_ex (\<lambda>keyword. str_contains keyword text_lower) keywords"

definition finding_of :: "string \<Rightarrow> string" where
  \<comment> \<open>the f-string appended to \<open>findings\<close> for a category that is present\<close>
  "finding_of clause = finding_mark @ '' '' @ str_title clause @ '' provisions identified''"

fun check_terms ::
  "(string \<times> string list) list \<Rightarrow> string \<Rightarrow> string list \<times> string list \<times> int
     \<Rightarrow> string list \<times> string list \<times> int" where
  \<comment> \<open>the loop \<open>for clause, keywords in key_terms.items()\<close> over
      \<open>(findings, missing_clauses, score)\<close>\<close>
  "check_terms [] text_lower acc = acc"
| "check_terms ((clause, keywords) # rest) text_lower (findings, missing_clauses, score) =
     (if found keywords text_lower
      then check_terms rest text_lower (findings @ [finding_of clause], missing_clauses, score + 5)
      else check_terms rest text_lower (findings, missing_clauses @ [clause], score - 10))"

definition risk_of :: "int \<Rightarrow> string" where
  \<comment> \<open>the \<open>if score >= 80 / elif score >= 60 / else\<close> chain\<close>
  "risk_of score = (if score \<ge> 80 then ''low'' else if score \<ge> 60 then ''medium'' else ''high'')"

definition executive_summary_of :: "string list \<Rightarrow> string list \<Rightarrow> string" where
  "executive_summary_of findings missing_clauses =
     ''Rule-based analysis completed. '' @ str_of_nat (length findings)
       @ '' key provisions identified, '' @ str_of_nat (length missing_clauses)
       @ '' clauses may be missing.''"

definition fallback_result :: "string list \<Rightarrow> string list \<Rightarrow> int \<Rightarrow> json" where
  \<comment> \<open>the dictionary of the \<open>return\<close> statement of \<open>_fallback_analysis\<close>, from the loop's
      \<open>findings\<close>, \<open>missing_clauses\<close> and \<open>score\<close>\<close>
  "fallback_result findings missing_clauses score =
     JObj
      [(''overall_assessment'', JObj
          [(''compliance_score'', JInt (max 0 (min 100 score))),
           (''risk_level'', JStr (risk_of score)),
           (''executive_summary'', JStr (executive_summary_of findings missing_clauses))]),
       (''section_analysis'', JArr
          [JObj
            [(''section'', JStr ''Automated Analysis''),
             (''status'', JStr ''partial_review''),
             (''score'', JInt score),
             (''findings'', JArr (map JStr findings)),
             (''recommendations'', JArr
                [JStr ''Complete LLM setup for detailed analysis'',
                 JStr ''Manual legal review recommended'']),
             (''red_flags'', JArr
                [JStr ''LLM analysis unavailable - limited assessment performed''])]]),
       (''missing_clauses'', JArr (map JStr missing_clauses)),
       (''strengths'', JArr (map JStr findings)),
       (''critical_issues'', JArr
          [JStr ''LLM service unavailable'', JStr ''Manual review required'']),
       (''recommendations'', JArr
          [JStr ''Set up Ollama with Llama model for detailed analysis'',
           JStr ''Conduct manual legal review'',
           JStr ''Verify all GDPR Article 28 requirements''])]"

definition fallback_analysis :: "string \<Rightarrow> json" where
  \<comment> \<open>\<open>_fallback_analysis(text_content)\<close>\<close>
  "fallback_analysis text_content =
     (let text_lower = str_lower text_content;
          (findings, missing_clauses, score) = check_terms key_terms text_lower ([], [], 70)
      in fallback_result findings missing_clauses score)"

section \<open>The JSON decoder\<close>

text \<open>
  \<open>json.loads\<close> belongs to Python's standard library. The analyzer tells three outcomes
  apart: a value, a \<open>JSONDecodeError\<close>, and any other exception (the decoder raises
  \<open>RecursionError\<close> on too deep a nesting and \<open>ValueError\<close> on too long an integer).
  The recovery routine below takes the decoder as a parameter, so what is proved of it
  holds for every decoder. \<open>json_loads\<close> is the standard decoder written out on the texts
  modelled here, following the library's \<open>scanstring\<close>, \<open>JSONObject\<close>, \<open>JSONArray\<close> and
  \<open>scan_once\<close>; it is what the sample inputs are run on. The interpreter's limits on nesting
  and on integer length are not modelled, and a \<open>\u\<close> escape beyond code point 255, which
  these strings cannot hold, is refused.
\<close>

datatype 'a loaded = Loaded 'a | JSONDecodeError | OtherException

definition json_ws :: "char \<Rightarrow> bool" where
  \<comment> \<open>the decoder's whitespace: space, tab, line feed, carriage return\<close>
  "json_ws c = (c = CHR '' '' \<or> c = CHR 0x09 \<or> c = CHR 0x0A \<or> c = CHR 0x0D)"

definition skip_ws :: "string \<Rightarrow> string" where
  "skip_ws s = dropWhile json_ws s"

definition backslash :: "char \<Rightarrow> char option" where
  \<comment> \<open>the table of one-letter escapes\<close>
  "backslash e =
     (if e = CHR 0x22 then Some (CHR 0x22)
      else if e = CHR 0x5C then Some (CHR 0x5C)
      else if e = CHR ''/'' then Some (CHR ''/'')
      else if e = CHR ''b'' then Some (CHR 0x08)
      else if e = CHR ''f'' then Some (CHR 0x0C)
      else if e = CHR ''n'' then Some (CHR 0x0A)
      else if e = CHR ''r'' then Some (CHR 0x0D)
      else if e = CHR ''t'' then Some (CHR 0x09)
      else None)"

definition hex_digit :: "char \<Rightarrow> nat option" where
  "hex_digit c =
     (let n = (of_char c :: nat)
      in if 48 \<le> n \<and> n \<le> 57 then Some (n - 48)
         else if 65 \<le> n \<and> n \<le> 70 then Some (n - 55)
         else if 97 \<le> n \<and> n \<le> 102 then Some (n - 87)
         else None)"

definition decode_u4 :: "char \<Rightarrow> char \<Rightarrow> char \<Rightarrow> char \<Rightarrow> nat option" where
  \<comment> \<open>the code point of \<open>\uXXXX\<close>\<close>
  "decode_u4 a b c d =
     (case (hex_digit a, hex_digit b, hex_digit c, hex_digit d) of
        (Some p, Some q, Some r, Some s) \<Rightarrow> Some (((p * 16 + q) * 16 + r) * 16 + s)
      | _ \<Rightarrow> None)"

fun scanstring :: "string \<Rightarrow> string \<Rightarrow> (string \<times> string) option" where
  \<comment> \<open>the text after an opening quote: the decoded string and what follows the closing
      quote; a raw control character is refused (strict mode)\<close>
  "scanstring acc [] = None"
| "scanstring acc (c # cs) =
     (if c = CHR 0x22 then Some (acc, cs)
      else if c = CHR 0x5C then
        (case cs of
           [] \<Rightarrow> None
         | e # es \<Rightarrow>
             if e = CHR ''u'' then
               (case es of
                  h1 # h2 # h3 # h4 # rest \<Rightarrow>
                    (case decode_u4 h1 h2 h3 h4 of
                       None \<Rightarrow> None
                     | Some n \<Rightarrow> if n < 256 then scanstring (acc @ [char_of n]) rest else None)
                | _ \<Rightarrow> None)
             else (case backslash e of
                     None \<Rightarrow> None
                   | Some ch \<Rightarrow> scanstring (acc @ [ch]) es))
      else if (of_char c :: nat) < 32 then None
      else scanstring (acc @ [c]) cs)"

definition is_digit :: "char \<Rightarrow> bool" where
  "is_digit c = (let n = (of_char c :: nat) in 48 \<le> n \<and> n \<le> 57)"

fun nat_of_digits :: "nat \<Rightarrow> string \<Rightarrow> nat" where
  "nat_of_digits acc [] = acc"
| "nat_of_digits acc (d # ds) = nat_of_digits (acc * 10 + (of_char d - 48)) ds"

definition exp_part :: "string \<Rightarrow> string \<times> string" where
  \<comment> \<open>the optional group \<open>[eE][-+]?[0-9]+\<close>: its text (empty when absent) and the rest\<close>
  "exp_part s =
     (case s of
        [] \<Rightarrow> ([], s)
      | e # r \<Rightarrow>
          if e = CHR ''e'' \<or> e = CHR ''E'' then
            (let (sg, r1) = (case r of
                               [] \<Rightarrow> ([], r)
                             | g # r' \<Rightarrow> if g = CHR ''-'' \<or> g = CHR ''+'' then ([g], r') else ([], r))
             in if takeWhile is_digit r1 = [] then ([], s)
                else (e # sg @ takeWhile is_digit r1, dropWhile is_digit r1))
          else ([], s))"

definition frac_part :: "string \<Rightarrow> string \<times> string" where
  \<comment> \<open>the optional group \<open>\.[0-9]+\<close>\<close>
  "frac_part s =
     (case s of
        p # q # qs \<Rightarrow>
          if p = CHR ''.'' \<and> is_digit q
          then (p # takeWhile is_digit (q # qs), dropWhile is_digit (q # qs))
          else ([], s)
      | _ \<Rightarrow> ([], s))"

definition match_number :: "string \<Rightarrow> (json \<times> string) option" where
  \<comment> \<open>the pattern \<open>(-?(?:0|[1-9][0-9]*))(\.[0-9]+)?([eE][-+]?[0-9]+)?\<close> at the start of the
      text: an \<open>int\<close> when there is neither fraction nor exponent, else a \<open>float\<close>\<close>
  "match_number s =
     (let (sign, s1) = (case s of
                          [] \<Rightarrow> ([], s)
                        | c # cs \<Rightarrow> if c = CHR ''-'' then ([c], cs) else ([], s))
      in case s1 of
           [] \<Rightarrow> None
         | d # ds \<Rightarrow>
             if \<not> is_digit d then None
             else
               (let (ipart, s2) = (if d = CHR ''0'' then ([d], ds)
                                   else (d # takeWhile is_digit ds, dropWhile is_digit ds));
                    (frac, s3) = frac_part s2;
                    (ex, s4) = exp_part s3
                in if frac = [] \<and> ex = []
                   then Some (JInt (if sign = [] then int (nat_of_digits 0 ipart)
                                    else - int (nat_of_digits 0 ipart)), s4)
                   else Some (JFloat (sign @ ipart @ frac @ ex), s4)))"

definition dict_of_pairs :: "(string \<times> json) list \<Rightarrow> (string \<times> json) list" where
  \<comment> \<open>\<open>dict(pairs)\<close>: a repeated key keeps its first place and its last value\<close>
  "dict_of_pairs pairs = foldl (\<lambda>d (k, v). dict_set d k v) [] pairs"

fun scan_once :: "nat \<Rightarrow> string \<Rightarrow> (json \<times> string) option"
  and json_array :: "nat \<Rightarrow> json list \<Rightarrow> string \<Rightarrow> (json \<times> string) option"
  and json_object :: "nat \<Rightarrow> (string \<times> json) list \<Rightarrow> string \<Rightarrow> (json \<times> string) option"
where
  \<comment> \<open>the first argument bounds the number of nested calls; \<open>json_array\<close> starts at a
      value, \<open>json_object\<close> right after the opening quote of a key\<close>
  "scan_once 0 s = None"
| "scan_once (Suc n) [] = None"
| "scan_once (Suc n) (c # cs) =
     (if c = CHR 0x22 then
        (case scanstring [] cs of None \<Rightarrow> None | Some (str, rest) \<Rightarrow> Some (JStr str, rest))
      else if c = CHR ''{'' then
        (case skip_ws cs of
           [] \<Rightarrow> None
         | d # ds \<Rightarrow>
             if d = CHR ''}'' then Some (JObj [], ds)
             else if d = CHR 0x22 then json_object n [] ds
             else None)
      else if c = CHR ''['' then
        (case skip_ws cs of
           [] \<Rightarrow> None
         | d # ds \<Rightarrow> if d = CHR '']'' then Some (JArr [], ds) else json_array n [] (d # ds))
      else if take 4 (c # cs) = ''null'' then Some (JNull, drop 4 (c # cs))
      else if take 4 (c # cs) = ''true'' then Some (JBool True, drop 4 (c # cs))
      else if take 5 (c # cs) = ''false'' then Some (JBool False, drop 5 (c # cs))
      else
        (case match_number (c # cs) of
           Some r \<Rightarrow> Some r
         | None \<Rightarrow>
             if take 3 (c # cs) = ''NaN'' then Some (JFloat ''NaN'', drop 3 (c # cs))
             else if take 8 (c # cs) = ''Infinity'' then Some (JFloat ''Infinity'', drop 8 (c # cs))
             else if take 9 (c # cs) = ''-Infinity''
               then Some (JFloat ''-Infinity'', drop 9 (c # cs))
             else None))"
| "json_array 0 vals s = None"
| "json_array (Suc n) vals s =
     (case scan_once n s of
        None \<Rightarrow> None
      | Some (v, s1) \<Rightarrow>
          (case skip_ws s1 of
             [] \<Rightarrow> None
           | d # ds \<Rightarrow>
               if d = CHR '']'' then Some (JArr (vals @ [v]), ds)
               else if d = CHR '','' then json_array n (vals @ [v]) (skip_ws ds)
               else None))"
| "json_object 0 pairs s = None"
| "json_object (Suc n) pairs s =
     (case scanstring [] s of
        None \<Rightarrow> None
      | Some (key, s1) \<Rightarrow>
          (case skip_ws s1 of
             [] \<Rightarrow> None
           | d # ds \<Rightarrow>
               if d \<noteq> CHR '':'' then None
               else
                 (case scan_once n (skip_ws ds) of
                    None \<Rightarrow> None
                  | Some (v, s2) \<Rightarrow>
                      (case skip_ws s2 of
                         [] \<Rightarrow> None
                       | e # es \<Rightarrow>
                           if e = CHR ''}'' then Some (JObj (dict_of_pairs (pairs @ [(key, v)])), es)
                           else if e = CHR '','' then
                             (case skip_ws es of
                                [] \<Rightarrow> None
                              | q # qs \<Rightarrow>
                                  if q = CHR 0x22 then json_object n (pairs @ [(key, v)]) qs
                                  else None)
                           else None))))"

definition json_loads :: "string \<Rightarrow> json loaded" where
  \<comment> \<open>\<open>json.loads(s)\<close>: one value between optional whitespace, and nothing else\<close>
  "json_loads s =
     (case scan_once (Suc (2 * length s)) (skip_ws s) of
        None \<Rightarrow> JSONDecodeError
      | Some (v, rest) \<Rightarrow> if skip_ws rest = [] then Loaded v else JSONDecodeError)"

section \<open>The knowledge base\<close>

definition review_sections :: "json list" where
  \<comment> \<open>the list under \<open>review_sections\<close> in \<open>_create_playbook\<close>\<close>
  "review_sections =
     [JObj
       [(''section'', JStr ''1. Parties and Roles''),
        (''description'', JStr ''Verify clear identification of data controller and processor roles''),
        (''key_points'', JArr
         [JStr ''Controller and processor clearly identified'',
          JStr ''Roles and responsibilities explicitly defined'',
          JStr ''No ambiguity about who controls processing purposes and means'']),
        (''red_flags'', JArr
         [JStr ''Joint controller arrangements without clear allocation of responsibilities'',
          JStr ''Processor attempting to determine purposes of processing'',
          JStr ''Unclear chain of responsibility in multi-party arrangements''])],
      JObj
       [(''section'', JStr ''2. Purpose and Scope of Processing''),
        (''description'', JStr ''Ensure processing is limited to specified, explicit and legitimate purposes''),
        (''key_points'', JArr
         [JStr ''Clear description of processing purposes'',
          JStr ''Specific categories of personal data identified'',
          JStr ''Data subjects clearly defined'',
          JStr ''Processing activities explicitly listed'']),
        (''red_flags'', JArr
         [JStr ''Vague or broad purpose descriptions'',
          JStr ''Open-ended categories of personal data'',
          JStr ''Unlimited scope for future processing activities'',
          JStr ''Secondary use rights without explicit consent''])],
      JObj
       [(''section'', JStr ''3. Data Subject Rights''),
        (''description'', JStr ''Verify adequate provisions for data subject rights fulfillment''),
        (''key_points'', JArr
         [JStr ''Processor assists with data subject requests'',
          JStr ''Response timeframes clearly defined'',
          JStr ''Technical and organizational measures for rights fulfillment'',
          JStr ''Procedures for handling rectification, erasure, and portability'']),
        (''red_flags'', JArr
         [JStr ''No mention of data subject rights assistance'',
          JStr ''Unreasonable response timeframes'',
          JStr ''Processor claiming inability to assist with certain rights'',
          JStr ''Excessive fees for rights fulfillment assistance''])],
      JObj
       [(''section'', JStr ''4. Security Measures''),
        (''description'', JStr ''Assess adequacy of technical and organizational security measures''),
        (''key_points'', JArr
         [JStr ''Appropriate technical safeguards (encryption, access controls)'',
          JStr ''Organizational measures (staff training, security policies)'',
          JStr ''Regular security assessments and updates'',
          JStr ''Incident detection and response procedures'']),
        (''red_flags'', JArr
         [JStr ''Generic or insufficient security measures'',
          JStr ''No mention of encryption for sensitive data'',
          JStr ''Lack of access controls or monitoring'',
          JStr ''No incident response procedures''])],
      JObj
       [(''section'', JStr ''5. International Transfers''),
        (''description'', JStr ''Ensure adequate safeguards for international data transfers''),
        (''key_points'', JArr
         [JStr ''Clear identification of transfer destinations'',
          JStr ''Appropriate transfer mechanisms (adequacy decisions, SCCs, BCRs)'',
          JStr ''Additional safeguards where required'',
          JStr ''Notification requirements for new transfer destinations'']),
        (''red_flags'', JArr
         [JStr ''Transfers to countries without adequacy decisions'',
          JStr ''No transfer mechanisms in place'',
          JStr ''Blanket permissions for worldwide transfers'',
          JStr ''Insufficient additional safeguards for high-risk transfers''])],
      JObj
       [(''section'', JStr ''6. Subprocessing''),
        (''description'', JStr ''Review subprocessor arrangements and approval mechanisms''),
        (''key_points'', JArr
         [JStr ''Clear subprocessor approval process'',
          JStr ''Written agreements with equivalent protection levels'',
          JStr ''Notification requirements for new subprocessors'',
          JStr ''Right to object to subprocessor appointments'']),
        (''red_flags'', JArr
         [JStr ''General authorization without approval rights'',
          JStr ''No equivalent protection requirements for subprocessors'',
          JStr ''Insufficient notification periods'',
          JStr ''No objection rights or unreasonable objection criteria''])],
      JObj
       [(''section'', JStr ''7. Data Retention and Deletion''),
        (''description'', JStr ''Verify appropriate data retention and deletion provisions''),
        (''key_points'', JArr
         [JStr ''Clear retention periods aligned with purposes'',
          JStr ''Secure deletion procedures and timelines'',
          JStr ''Certification of deletion where required'',
          JStr ''Return of data options'']),
        (''red_flags'', JArr
         [JStr ''Indefinite retention periods'',
          JStr ''No secure deletion procedures'',
          JStr ''Unreasonable delays in data return/deletion'',
          JStr ''Processor claiming right to retain copies''])],
      JObj
       [(''section'', JStr ''8. Breach Notification''),
        (''description'', JStr ''Ensure adequate breach notification procedures''),
        (''key_points'', JArr
         [JStr ''Prompt notification requirements (24-72 hours)'',
          JStr ''Detailed information requirements for breach notifications'',
          JStr ''Assistance with regulatory reporting'',
          JStr ''Cooperation in breach investigation and mitigation'']),
        (''red_flags'', JArr
         [JStr ''No specific notification timeframes'',
          JStr ''Limited information sharing about breaches'',
          JStr ''No assistance with regulatory obligations'',
          JStr ''Disclaimer of liability for breach-related costs''])],
      JObj
       [(''section'', JStr ''9. Auditing and Compliance''),
        (''description'', JStr ''Review audit rights and compliance monitoring provisions''),
        (''key_points'', JArr
         [JStr ''Reasonable audit rights and access'',
          JStr ''Regular compliance assessments'',
          JStr ''Documentation and record-keeping requirements'',
          JStr ''Third-party certification acceptance'']),
        (''red_flags'', JArr
         [JStr ''Severely restricted audit rights'',
          JStr ''Excessive fees for audit activities'',
          JStr ''No documentation or transparency requirements'',
          JStr ''Refusal to accept reasonable certification standards''])],
      JObj
       [(''section'', JStr ''10. Liability and Indemnification''),
        (''description'', JStr ''Assess liability allocation and indemnification provisions''),
        (''key_points'', JArr
         [JStr ''Appropriate liability allocation between parties'',
          JStr ''Adequate insurance or financial guarantees'',
          JStr ''Indemnification for processor-caused violations'',
          JStr ''No unreasonable liability caps for data protection violations'']),
        (''red_flags'', JArr
         [JStr ''Complete liability exclusions for the processor'',
          JStr ''Unreasonably low liability caps'',
          JStr ''No indemnification for processor negligence'',
          JStr ''Attempts to shift controller liability to processor''])]]"

definition playbook :: json where
  \<comment> \<open>\<open>_create_playbook()\<close>, which \<open>get_playbook\<close> returns\<close>
  "playbook =
     JObj
      [(''overview'', JObj
         [(''title'', JStr ''Data Processing Agreement (DPA) Review Playbook''),
          (''purpose'', JStr ''This playbook provides guidance for reviewing Data Processing Agreements to ensure GDPR compliance and adequate privacy protections.''),
          (''scope'', JStr ''Applicable to all third-party data processing arrangements where personal data is shared.'')]),
       (''review_sections'', JArr review_sections),
       (''risk_assessment'', JObj
         [(''high_risk_indicators'', JArr
           [JStr ''Processing of special category data without adequate safeguards'',
            JStr ''Large-scale systematic monitoring'',
            JStr ''Cross-border transfers to high-risk jurisdictions'',
            JStr ''Innovative technologies with privacy implications'',
            JStr ''Processing affecting vulnerable populations'']),
          (''compliance_checklist'', JArr
           [JStr ''Article 28 GDPR requirements fully addressed'',
            JStr ''Data Protection Impact Assessment completed if required'',
            JStr ''Legal basis for processing clearly established'',
            JStr ''Transparency requirements met'',
            JStr ''Data minimization principles applied''])])]"

definition key_clauses :: json where
  \<comment> \<open>\<open>_get_key_clauses()\<close>\<close>
  "key_clauses =
     JArr
     [JStr ''purpose_limitation'',
      JStr ''data_categories'',
      JStr ''retention_period'',
      JStr ''security_measures'',
      JStr ''subprocessor_management'',
      JStr ''data_subject_rights'',
      JStr ''breach_notification'',
      JStr ''international_transfers'',
      JStr ''audit_rights'',
      JStr ''termination_procedures'']"

definition risk_indicators :: json where
  \<comment> \<open>\<open>_get_risk_indicators()\<close>\<close>
  "risk_indicators =
     JObj
     [(''high_risk'', JArr
       [JStr ''unlimited data retention'',
        JStr ''broad processing purposes'',
        JStr ''weak security measures'',
        JStr ''unrestricted subprocessing'',
        JStr ''no breach notification'',
        JStr ''limited audit rights'',
        JStr ''liability exclusions'',
        JStr ''no data subject rights support'']),
      (''medium_risk'', JArr
       [JStr ''vague purpose descriptions'',
        JStr ''standard security measures'',
        JStr ''general subprocessor approval'',
        JStr ''limited international transfer safeguards'',
        JStr ''basic breach notification'',
        JStr ''restricted audit access'']),
      (''low_risk'', JArr
       [JStr ''specific limited purposes'',
        JStr ''strong security measures'',
        JStr ''explicit subprocessor approval'',
        JStr ''robust transfer safeguards'',
        JStr ''comprehensive breach procedures'',
        JStr ''full audit rights'',
        JStr ''adequate liability provisions''])]"

section \<open>The analyzer\<close>

text \<open>
  The platform is everything the analyzer calls and does not define: the JSON decoder, the
  PDF and DOCX readers (the page texts or paragraph texts of a file, or the text of the
  exception raised), the UTF-8 decoder, the model endpoint (its reply to the n-th request,
  given the payload), the event loop's clock \<open>asyncio.get_event_loop().time()\<close> and the
  wall clock \<open>time.time()\<close>, both floats. The analyzer never reads the wall clock. The
  requests sent so far are the state that the calls thread through. What the analyzer
  prints to the console is left out.

  An error is Python's \<open>Exception(message)\<close>: the analyzer raises no other kind. A reply
  of the endpoint is an exception of the transport (refused connection, timeout) with its
  text, or a status with the outcome of \<open>response.json()\<close>, \<open>Inl\<close> being the text of the
  exception it raised.
\<close>

datatype error = Exception string

datatype http_reply =
    TransportFailure string
  | HttpResponse int "string + json"

record platform =
  loads :: "string \<Rightarrow> json loaded"
  pdf_pages :: "string \<Rightarrow> string + string list"
  docx_paragraphs :: "string \<Rightarrow> string + string list"
  utf8_decode :: "string \<Rightarrow> string + string"
  endpoint :: "nat \<Rightarrow> json \<Rightarrow> http_reply"
  loop_time :: string
  wall_time :: string

definition model_name :: string where
  "model_name = ''llama3.2:1b''"

definition ollama_url :: string where
  "ollama_url = ''http://localhost:11434''"

definition join_lines :: "string list \<Rightarrow> string" where
  \<comment> \<open>the lines of a text, a line feed between two of them\<close>
  "join_lines ls = (case ls of [] \<Rightarrow> [] | l # rest \<Rightarrow> l @ concat (map (\<lambda>x. CHR 0x0A # x) rest))"

definition prompt_head :: "string list" where
  \<comment> \<open>the lines of the prompt before the document text; the last one is empty\<close>
  "prompt_head =
     [''You are a privacy lawyer reviewing a Data Processing Agreement (DPA).'',
      '''',
      ''Analyze this DPA text for GDPR compliance and respond ONLY with valid JSON:'',
      '''',
      ''DOCUMENT:'',
      '''']"

definition prompt_tail :: "string list" where
  \<comment> \<open>the lines of the prompt after the document text; the first one is empty\<close>
  "prompt_tail =
     ['''',
      '''',
      ''REQUIRED JSON RESPONSE:'',
      ''{'',
      ''    \"overall_assessment\": {'',
      ''        \"compliance_score\": 75,'',
      ''        \"risk_level\": \"medium\",'',
      ''        \"executive_summary\": \"Brief summary of main findings\"'',
      ''    },'',
      ''    \"section_analysis\": ['',
      ''        {'',
      ''            \"section\": \"Key Provisions\",'',
      ''            \"status\": \"compliant\",'',
      ''            \"score\": 80,'',
      ''            \"findings\": [\"Found data controller definitions\", \"Security measures present\"],'',
      ''            \"recommendations\": [\"Add retention periods\", \"Clarify breach notification\"],'',
      ''            \"red_flags\": [\"Missing audit rights\"]'',
      ''        }'',
      ''    ],'',
      ''    \"missing_clauses\": [\"retention period\", \"audit rights\"],'',
      ''    \"strengths\": [\"Clear roles\", \"Security measures\"],'',
      ''    \"critical_issues\": [\"No breach notification clause\"],'',
      ''    \"recommendations\": [\"Add missing clauses\", \"Define retention periods\"]'',
      ''}'',
      '''',
      ''Respond with ONLY the JSON object, no other text.'']"

definition create_analysis_prompt :: "string \<Rightarrow> json \<Rightarrow> json \<Rightarrow> json \<Rightarrow> string" where
  \<comment> \<open>\<open>_create_analysis_prompt\<close>: the f-string around \<open>text_content[:2000]\<close>; the playbook,
      the key clauses and the risk indicators are passed and not used\<close>
  "create_analysis_prompt text_content pb clauses indicators =
     (let limited_text = take 2000 text_content
      in join_lines prompt_head @ limited_text @ join_lines prompt_tail)"

definition extract_from_pdf :: "platform \<Rightarrow> string \<Rightarrow> error + string" where
  \<comment> \<open>\<open>_extract_from_pdf\<close>: every page's text followed by a line feed\<close>
  "extract_from_pdf P file_content =
     (case pdf_pages P file_content of
        Inl e \<Rightarrow> Inl (Exception (''PDF extraction failed: '' @ e))
      | Inr pages \<Rightarrow> Inr (concat (map (\<lambda>page. page @ [CHR 0x0A]) pages)))"

definition extract_from_docx :: "platform \<Rightarrow> string \<Rightarrow> error + string" where
  \<comment> \<open>\<open>_extract_from_docx\<close>: every paragraph's text followed by a line feed\<close>
  "extract_from_docx P file_content =
     (case docx_paragraphs P file_content of
        Inl e \<Rightarrow> Inl (Exception (''DOCX extraction failed: '' @ e))
      | Inr paragraphs \<Rightarrow> Inr (concat (map (\<lambda>paragraph. paragraph @ [CHR 0x0A]) paragraphs)))"

definition extract_text :: "platform \<Rightarrow> string \<Rightarrow> string \<Rightarrow> error + string" where
  \<comment> \<open>\<open>_extract_text\<close>: the dispatch on the lower-cased file name inside a \<open>try\<close> whose
      handler wraps every exception\<close>
  "extract_text P file_content filename =
     (let attempt =
            (if str_endswith (str_lower filename) ''.pdf'' then extract_from_pdf P file_content
             else if str_endswith (str_lower filename) ''.docx''
               then extract_from_docx P file_content
             else if str_endswith (str_lower filename) ''.txt'' then
               (case utf8_decode P file_content of
                  Inl e \<Rightarrow> Inl (Exception e)
                | Inr decoded \<Rightarrow> Inr decoded)
             else Inl (Exception (''Unsupported file format: '' @ filename)))
      in case attempt of
           Inl (Exception e) \<Rightarrow> Inl (Exception (''Text extraction failed: '' @ e))
         | Inr text_content \<Rightarrow> Inr text_content)"

definition degraded_result :: json where
  \<comment> \<open>the dictionary \<open>_call_ollama_api\<close> returns when the response could not be parsed\<close>
  "degraded_result =
     JObj
      [(''overall_assessment'', JObj
          [(''compliance_score'', JInt 70),
           (''risk_level'', JStr ''medium''),
           (''executive_summary'',
              JStr ''AI analysis encountered formatting issues, using fallback assessment'')]),
       (''section_analysis'', JArr
          [JObj
            [(''section'', JStr ''AI Analysis''),
             (''status'', JStr ''unclear''),
             (''score'', JInt 70),
             (''findings'', JArr [JStr ''AI generated response but with formatting issues'']),
             (''recommendations'', JArr [JStr ''Manual review recommended'']),
             (''red_flags'', JArr [JStr ''AI response parsing failed''])]]),
       (''missing_clauses'', JArr []),
       (''strengths'', JArr [JStr ''Document processed by AI'']),
       (''critical_issues'', JArr [JStr ''Response formatting needs improvement'']),
       (''recommendations'', JArr
          [JStr ''Consider upgrading to larger AI model'',
           JStr ''Manual legal review advised''])]"

definition recover :: "(string \<Rightarrow> json loaded) \<Rightarrow> string \<Rightarrow> json" where
  \<comment> \<open>the \<open>try\<close> block of \<open>_call_ollama_api\<close> that turns the response text into a result.
      The inner handler catches \<open>JSONDecodeError\<close> only; whatever it raises, and every
      other exception of the first parse, reaches the outer handler, which returns the
      fixed dictionary. \<open>json_end\<close> is \<open>rfind + 1\<close>, so it is never -1.\<close>
  "recover decode response_text =
     (let cleaned_response = str_strip response_text
      in case decode cleaned_response of
           Loaded v \<Rightarrow> v
         | OtherException \<Rightarrow> degraded_result
         | JSONDecodeError \<Rightarrow>
             (let json_start = str_find cleaned_response (CHR ''{'');
                  json_end = str_rfind cleaned_response (CHR ''}'') + 1
              in if json_start \<noteq> - 1 \<and> json_end \<noteq> - 1 then
                   (let json_content = str_slice cleaned_response json_start json_end;
                        json_content = replace_double_spaces (replace_newlines json_content)
                    in case decode json_content of
                         Loaded v \<Rightarrow> v
                       | JSONDecodeError \<Rightarrow> degraded_result
                       | OtherException \<Rightarrow> degraded_result)
                 else degraded_result))"

definition str_of_int :: "int \<Rightarrow> string" where
  \<comment> \<open>the decimal text an f-string gives an \<open>int\<close>\<close>
  "str_of_int i = (if i < 0 then CHR ''-'' # str_of_nat (nat (- i)) else str_of_nat (nat i))"

definition quoted :: "string \<Rightarrow> string" where
  \<comment> \<open>a name between single quotes\<close>
  "quoted s = [CHR 0x27] @ s @ [CHR 0x27]"

definition type_name :: "json \<Rightarrow> string" where
  \<comment> \<open>the name of a value's Python type, in quotes, as exception texts show it\<close>
  "type_name j =
     quoted
       (case j of
          JNull \<Rightarrow> ''NoneType'' | JBool b \<Rightarrow> ''bool'' | JInt i \<Rightarrow> ''int'' | JFloat f \<Rightarrow> ''float''
        | JStr s \<Rightarrow> ''str'' | JArr xs \<Rightarrow> ''list'' | JObj kvs \<Rightarrow> ''dict'')"

definition response_result :: "(string \<Rightarrow> json loaded) \<Rightarrow> json \<Rightarrow> string + json" where
  \<comment> \<open>what \<open>_call_ollama_api\<close> does with \<open>response_text = result.get("response", "")\<close>.
      A string goes through \<open>recover\<close>. Any other value has no \<open>strip\<close>; the outer handler
      catches that and then evaluates \<open>response_text[:500]\<close> for its message, which a
      list supports (the fixed dictionary is returned) and no other value does (the
      exception leaves the handler; its text is the one of Python 3.11 for a dictionary)\<close>
  "response_result decode response_text =
     (case response_text of
        JStr s \<Rightarrow> Inr (recover decode s)
      | JArr xs \<Rightarrow> Inr degraded_result
      | JObj kvs \<Rightarrow> Inl (''unhashable type: '' @ quoted ''slice'')
      | JNull \<Rightarrow> Inl (type_name response_text @ '' object is not subscriptable'')
      | JBool b \<Rightarrow> Inl (type_name response_text @ '' object is not subscriptable'')
      | JInt i \<Rightarrow> Inl (type_name response_text @ '' object is not subscriptable'')
      | JFloat f \<Rightarrow> Inl (type_name response_text @ '' object is not subscriptable''))"

definition request_payload :: "string \<Rightarrow> json" where
  \<comment> \<open>the \<open>payload\<close> of \<open>_call_ollama_api\<close>\<close>
  "request_payload prompt =
     JObj
      [(''model'', JStr model_name),
       (''prompt'', JStr prompt),
       (''stream'', JBool False),
       (''options'', JObj [(''temperature'', JFloat ''0.1''), (''top_p'', JFloat ''0.9'')])]"

definition call_ollama_api :: "platform \<Rightarrow> string \<Rightarrow> json list \<Rightarrow> (error + json) \<times> json list" where
  \<comment> \<open>\<open>_call_ollama_api\<close>: one POST; every exception inside is re-raised as
      \<open>LLM API call failed\<close>\<close>
  "call_ollama_api P prompt sent =
     (let payload = request_payload prompt;
          outcome =
            (case endpoint P (length sent) payload of
               TransportFailure e \<Rightarrow> Inl e
             | HttpResponse status body \<Rightarrow>
                 if status = 200 then
                   (case body of
                      Inl e \<Rightarrow> Inl e
                    | Inr result \<Rightarrow>
                        (case result of
                           JObj kvs \<Rightarrow>
                             response_result (loads P)
                               (case dict_get kvs ''response'' of None \<Rightarrow> JStr [] | Some v \<Rightarrow> v)
                         | JNull \<Rightarrow> Inl (type_name result @ '' object has no attribute '' @ quoted ''get'')
                         | JBool b \<Rightarrow> Inl (type_name result @ '' object has no attribute '' @ quoted ''get'')
                         | JInt i \<Rightarrow> Inl (type_name result @ '' object has no attribute '' @ quoted ''get'')
                         | JFloat f \<Rightarrow> Inl (type_name result @ '' object has no attribute '' @ quoted ''get'')
                         | JStr s \<Rightarrow> Inl (type_name result @ '' object has no attribute '' @ quoted ''get'')
                         | JArr xs \<Rightarrow> Inl (type_name result @ '' object has no attribute '' @ quoted ''get'')))
                 else Inl (''Ollama API call failed with status '' @ str_of_int status))
      in (case outcome of
            Inl e \<Rightarrow> Inl (Exception (''LLM API call failed: '' @ e))
          | Inr analysis_result \<Rightarrow> Inr analysis_result,
          sent @ [payload]))"

definition perform_ai_analysis :: "platform \<Rightarrow> string \<Rightarrow> json list \<Rightarrow> json \<times> json list" where
  \<comment> \<open>\<open>_perform_ai_analysis\<close>: the model's result, or the rule-based one after any exception\<close>
  "perform_ai_analysis P text_content sent =
     (let prompt = create_analysis_prompt text_content playbook key_clauses risk_indicators
      in case call_ollama_api P prompt sent of
           (Inr analysis_result, sent') \<Rightarrow> (analysis_result, sent')
         | (Inl e, sent') \<Rightarrow> (fallback_analysis text_content, sent'))"

definition structure_analysis :: "platform \<Rightarrow> json \<Rightarrow> string \<Rightarrow> error + json" where
  \<comment> \<open>\<open>_structure_analysis\<close>: two item assignments, which only a dictionary supports; the
      text of the \<open>TypeError\<close> is the one of a list for a list\<close>
  "structure_analysis P analysis_result original_text =
     (case analysis_result of
        JObj kvs \<Rightarrow>
          Inr (JObj
            (dict_set
              (dict_set kvs ''metadata''
                (JObj
                  [(''document_length'', JInt (int (length original_text))),
                   (''analysis_timestamp'', JFloat (loop_time P)),
                   (''analyzer_version'', JStr ''1.0.0''),
                   (''model_used'', JStr model_name)]))
              ''playbook_reference''
              (JObj
                [(''sections_reviewed'', JInt (int (length review_sections))),
                 (''playbook_version'', JStr ''1.0.0'')])))
      | JArr xs \<Rightarrow> Inl (Exception ''list indices must be integers or slices, not str'')
      | JNull \<Rightarrow>
          Inl (Exception (type_name analysis_result @ '' object does not support item assignment''))
      | JBool b \<Rightarrow>
          Inl (Exception (type_name analysis_result @ '' object does not support item assignment''))
      | JInt i \<Rightarrow>
          Inl (Exception (type_name analysis_result @ '' object does not support item assignment''))
      | JFloat f \<Rightarrow>
          Inl (Exception (type_name analysis_result @ '' object does not support item assignment''))
      | JStr s \<Rightarrow>
          Inl (Exception (type_name analysis_result @ '' object does not support item assignment'')))"

definition analyze_document ::
  "platform \<Rightarrow> string \<Rightarrow> string \<Rightarrow> json list \<Rightarrow> (error + json) \<times> json list" where
  \<comment> \<open>\<open>analyze_document\<close>: extract, analyse, structure; every exception is re-raised as
      \<open>Document analysis failed\<close>\<close>
  "analyze_document P file_content filename sent =
     (case extract_text P file_content filename of
        Inl (Exception e) \<Rightarrow> (Inl (Exception (''Document analysis failed: '' @ e)), sent)
      | Inr text_content \<Rightarrow>
          (case perform_ai_analysis P text_content sent of
             (analysis_result, sent') \<Rightarrow>
               (case structure_analysis P analysis_result text_content of
                  Inl (Exception e) \<Rightarrow>
                    (Inl (Exception (''Document analysis failed: '' @ e)), sent')
                | Inr structured_analysis \<Rightarrow> (Inr structured_analysis, sent'))))"

section \<open>Reading a result\<close>

fun path :: "json \<Rightarrow> string list \<Rightarrow> json option" where
  \<comment> \<open>\<open>j[k1][k2]...\<close>, none when a key is missing or a value on the way is no dictionary\<close>
  "path j [] = Some j"
| "path j (k # ks) = (case field j k of None \<Rightarrow> None | Some v \<Rightarrow> path v ks)"

definition sections :: "json \<Rightarrow> json list" where
  \<comment> \<open>the entries of \<open>section_analysis\<close>\<close>
  "sections r = (case field r ''section_analysis'' of Some (JArr xs) \<Rightarrow> xs | _ \<Rightarrow> [])"

section \<open>The scoring rule as the specification words it\<close>

definition occurs_in :: "string \<Rightarrow> string \<Rightarrow> bool" where
  \<comment> \<open>a lower-case keyword is a case-insensitive substring of the text\<close>
  "occurs_in kw text_content = sublist kw (str_lower text_content)"

definition category_present :: "string list \<Rightarrow> string \<Rightarrow> bool" where
  \<comment> \<open>any of a category's keyword variants occurs\<close>
  "category_present keywords text_content = list_ex (\<lambda>kw. occurs_in kw text_content) keywords"

definition rule_score :: "string \<Rightarrow> int" where
  \<comment> \<open>start at 70; add 5 for a category that is present, subtract 10 for one that is not\<close>
  "rule_score text_content =
     70 + sum_list
            (map (\<lambda>(clause, keywords). if category_present keywords text_content then 5 else - 10)
               key_terms)"

definition clamp_score :: "int \<Rightarrow> int" where
  \<comment> \<open>clamping to \<open>[0, 100]\<close>\<close>
  "clamp_score s = (if s < 0 then 0 else if s > 100 then 100 else s)"

definition rule_risk :: "int \<Rightarrow> string" where
  \<comment> \<open>low from 80 on, medium from 60 to below 80, high below 60\<close>
  "rule_risk s =
     (if s \<ge> 80 then ''low'' else if 60 \<le> s \<and> s < 80 then ''medium'' else ''high'')"

definition present_clauses :: "string \<Rightarrow> string list" where
  \<comment> \<open>the names of the categories that are present, in the order of \<open>key_terms\<close>\<close>
  "present_clauses text_content =
     map fst (filter (\<lambda>(clause, keywords). category_present keywords text_content) key_terms)"

definition absent_clauses :: "string \<Rightarrow> string list" where
  \<comment> \<open>the names of the categories that are not present, in the order of \<open>key_terms\<close>\<close>
  "absent_clauses text_content =
     map fst (filter (\<lambda>(clause, keywords). \<not> category_present keywords text_content) key_terms)"

definition all_nine_text :: string where
  \<comment> \<open>a sample document that mentions every category\<close>
  "all_nine_text =
     ''The Controller and the Processor handle personal data under the GDPR, with encryption, breach notification, the right to access, deletion and every third party.''"

definition two_category_text :: string where
  \<comment> \<open>a sample document that mentions a sub-processor and nothing else\<close>
  "two_category_text = ''Every Sub-Processor is listed in Annex 2.''"

definition items :: "json \<Rightarrow> string \<Rightarrow> json list" where
  \<comment> \<open>the entries of the list under a key of a result\<close>
  "items r k = (case field r k of Some (JArr xs) \<Rightarrow> xs | _ \<Rightarrow> [])"

definition section_items :: "json \<Rightarrow> string \<Rightarrow> json list" where
  \<comment> \<open>the entries of the lists under a key of the sections of a result, in order\<close>
  "section_items r k = concat (map (\<lambda>s. items s k) (sections r))"

section \<open>The canonical schema as the specification words it\<close>

definition is_text :: "json \<Rightarrow> bool" where
  "is_text j = (case j of JStr s \<Rightarrow> True | _ \<Rightarrow> False)"

definition is_text_seq :: "json \<Rightarrow> bool" where
  \<comment> \<open>a sequence of text\<close>
  "is_text_seq j = (case j of JArr xs \<Rightarrow> list_all is_text xs | _ \<Rightarrow> False)"

definition is_integer :: "json \<Rightarrow> bool" where
  "is_integer j = (case j of JInt n \<Rightarrow> True | _ \<Rightarrow> False)"

definition is_score :: "json \<Rightarrow> bool" where
  \<comment> \<open>an integer in 0..100\<close>
  "is_score j = (case j of JInt n \<Rightarrow> 0 \<le> n \<and> n \<le> 100 | _ \<Rightarrow> False)"

definition is_timestamp :: "json \<Rightarrow> bool" where
  \<comment> \<open>a clock reading\<close>
  "is_timestamp j = (case j of JFloat f \<Rightarrow> True | _ \<Rightarrow> False)"

definition is_risk_level :: "json \<Rightarrow> bool" where
  "is_risk_level j =
     (case j of JStr s \<Rightarrow> s = ''low'' \<or> s = ''medium'' \<or> s = ''high'' | _ \<Rightarrow> False)"

definition is_status :: "json \<Rightarrow> bool" where
  "is_status j =
     (case j of
        JStr s \<Rightarrow> s = ''compliant'' \<or> s = ''non_compliant'' \<or> s = ''unclear'' \<or> s = ''partial_review''
      | _ \<Rightarrow> False)"

definition has :: "json \<Rightarrow> string \<Rightarrow> (json \<Rightarrow> bool) \<Rightarrow> bool" where
  \<comment> \<open>the field is present and of the given kind\<close>
  "has j k kind = (case field j k of None \<Rightarrow> False | Some v \<Rightarrow> kind v)"

definition valid_overall :: "json \<Rightarrow> bool" where
  "valid_overall j =
     (has j ''compliance_score'' is_score \<and> has j ''risk_level'' is_risk_level
      \<and> has j ''executive_summary'' is_text)"

definition valid_section :: "(json \<Rightarrow> bool) \<Rightarrow> json \<Rightarrow> bool" where
  \<comment> \<open>an entry of \<open>section_analysis\<close>; the first argument is the kind asked of its score\<close>
  "valid_section score_kind j =
     (has j ''section'' is_text \<and> has j ''status'' is_status \<and> has j ''score'' score_kind
      \<and> has j ''findings'' is_text_seq \<and> has j ''recommendations'' is_text_seq
      \<and> has j ''red_flags'' is_text_seq)"

definition valid_sections :: "(json \<Rightarrow> bool) \<Rightarrow> json \<Rightarrow> bool" where
  "valid_sections score_kind j =
     (case j of JArr xs \<Rightarrow> list_all (valid_section score_kind) xs | _ \<Rightarrow> False)"

definition schema_with :: "(json \<Rightarrow> bool) \<Rightarrow> json \<Rightarrow> bool" where
  \<comment> \<open>the fields of a result before the assembler adds its two\<close>
  "schema_with score_kind r =
     (has r ''overall_assessment'' valid_overall
      \<and> has r ''section_analysis'' (valid_sections score_kind)
      \<and> has r ''missing_clauses'' is_text_seq \<and> has r ''strengths'' is_text_seq
      \<and> has r ''critical_issues'' is_text_seq \<and> has r ''recommendations'' is_text_seq)"

definition schema_valid :: "json \<Rightarrow> bool" where
  \<comment> \<open>the canonical schema: every field present and of its type, every section score
      an integer in 0..100\<close>
  "schema_valid r = schema_with is_score r"

definition valid_metadata :: "json \<Rightarrow> bool" where
  "valid_metadata j =
     (has j ''document_length'' is_integer \<and> has j ''analysis_timestamp'' is_timestamp
      \<and> has j ''analyzer_version'' is_text \<and> has j ''model_used'' is_text)"

definition valid_playbook_reference :: "json \<Rightarrow> bool" where
  "valid_playbook_reference j =
     (has j ''sections_reviewed'' is_integer \<and> has j ''playbook_version'' is_text)"

definition assembled_with :: "(json \<Rightarrow> bool) \<Rightarrow> json \<Rightarrow> bool" where
  \<comment> \<open>the fields of a result as the caller gets it\<close>
  "assembled_with score_kind r =
     (schema_with score_kind r \<and> has r ''metadata'' valid_metadata
      \<and> has r ''playbook_reference'' valid_playbook_reference)"

definition assembled_valid :: "json \<Rightarrow> bool" where
  "assembled_valid r = assembled_with is_score r"

section \<open>Sample inputs\<close>

definition sample_object :: string where
  \<comment> \<open>a model response that is one object of the canonical schema\<close>
  "sample_object =
     ''{\"overall_assessment\": {\"compliance_score\": 75, \"risk_level\": \"medium\", \"executive_summary\": \"ok\"}, \"section_analysis\": [{\"section\": \"Key Provisions\", \"status\": \"compliant\", \"score\": 80, \"findings\": [], \"recommendations\": [], \"red_flags\": [\"Missing audit rights\"]}], \"missing_clauses\": [], \"strengths\": [], \"critical_issues\": [], \"recommendations\": []}''"

definition sample_value :: json where
  \<comment> \<open>the value of \<open>sample_object\<close>\<close>
  "sample_value =
     JObj
      [(''overall_assessment'', JObj
          [(''compliance_score'', JInt 75),
           (''risk_level'', JStr ''medium''),
           (''executive_summary'', JStr ''ok'')]),
       (''section_analysis'', JArr
          [JObj
            [(''section'', JStr ''Key Provisions''),
             (''status'', JStr ''compliant''),
             (''score'', JInt 80),
             (''findings'', JArr []),
             (''recommendations'', JArr []),
             (''red_flags'', JArr [JStr ''Missing audit rights''])]]),
       (''missing_clauses'', JArr []),
       (''strengths'', JArr []),
       (''critical_issues'', JArr []),
       (''recommendations'', JArr [])]"

definition sample_platform :: "http_reply \<Rightarrow> platform" where
  \<comment> \<open>a platform with the standard decoder, whose endpoint gives the same reply to every
      request and whose UTF-8 decoder passes ASCII text through\<close>
  "sample_platform reply =
     \<lparr>loads = json_loads,
      pdf_pages = (\<lambda>b. Inl ''EOF marker not found''),
      docx_paragraphs = (\<lambda>b. Inl ''File is not a zip file''),
      utf8_decode = (\<lambda>b. Inr b),
      endpoint = (\<lambda>n payload. reply),
      loop_time = ''8125.25'',
      wall_time = ''1730000000.5''\<rparr>"

definition failing_platform :: platform where
  \<comment> \<open>the sample platform with an endpoint that refuses every connection\<close>
  "failing_platform = sample_platform (TransportFailure ''Connection refused'')"

definition sample_run :: "(error + json) \<times> json list" where
  \<comment> \<open>the analysis of a small text file while the endpoint is down\<close>
  "sample_run = analyze_document failing_platform ''data controller'' ''dpa.txt'' []"


section \<open>The recovery stages as the specification words them\<close>

definition between_braces :: "string \<Rightarrow> string" where
  \<comment> \<open>the substring from the first \<open>{\<close> to the last \<open>}\<close>, both included; it is empty when
      no \<open>}\<close> follows the first \<open>{\<close>\<close>
  "between_braces s =
     rev (dropWhile (\<lambda>c. c \<noteq> CHR ''}'') (rev (dropWhile (\<lambda>c. c \<noteq> CHR ''{'') s)))"

definition is_loaded :: "'a loaded \<Rightarrow> bool" where
  \<comment> \<open>the parse succeeded\<close>
  "is_loaded r = (case r of Loaded v \<Rightarrow> True | JSONDecodeError \<Rightarrow> False | OtherException \<Rightarrow> False)"

definition newline_to_space :: "char \<Rightarrow> char" where
  \<comment> \<open>a line feed becomes a space, every other character stays\<close>
  "newline_to_space c = (if c = CHR 0x0A then CHR '' '' else c)"

fun halve_runs :: "nat \<Rightarrow> string \<Rightarrow> string" where
  \<comment> \<open>every maximal run of spaces is cut to half its length, rounded up, and nothing
      else changes; the first argument counts the spaces of the run read so far\<close>
  "halve_runs n [] = replicate ((n + 1) div 2) (CHR '' '')"
| "halve_runs n (c # cs) =
     (if c = CHR '' '' then halve_runs (Suc n) cs
      else replicate ((n + 1) div 2) (CHR '' '') @ c # halve_runs 0 cs)"

definition normalised :: "string \<Rightarrow> string" where
  \<comment> \<open>the normalisation of stage 2: line feeds to spaces, then runs of spaces halved\<close>
  "normalised s = halve_runs 0 (map newline_to_space s)"

definition length_limited_loads :: "string \<Rightarrow> json loaded" where
  \<comment> \<open>a sample decoder that raises an exception of its own on a text of more than 20
      characters, as a decoder with a limit does, and is the standard decoder otherwise\<close>
  "length_limited_loads s = (if 20 < length s then OtherException else json_loads s)"

section \<open>Properties of the fallback analysis\<close>

lemma take_length_eq_prefix: "(take (length kw) s = kw) = prefix kw s"
  by (metis append_eq_conv_conj prefix_def)

lemma str_contains_sublist: "str_contains kw s = sublist kw s"
  by (induction s) (simp_all add: sublist_Cons_right take_length_eq_prefix)

lemma found_category_present: "found keywords (str_lower text_content) = category_present keywords text_content"
  by (simp add: found_def category_present_def occurs_in_def str_contains_sublist)

lemma check_terms_eq:
  "check_terms ts (str_lower text_content) (f, m, s) =
     (f @ map finding_of (map fst (filter (\<lambda>(clause, keywords). category_present keywords text_content) ts)),
      m @ map fst (filter (\<lambda>(clause, keywords). \<not> category_present keywords text_content) ts),
      s + sum_list (map (\<lambda>(clause, keywords). if category_present keywords text_content then 5 else - 10) ts))"
proof (induction ts arbitrary: f m s)
  case Nil
  show ?case by simp
next
  case (Cons t ts)
  obtain clause kws where t: "t = (clause, kws)" by (cases t)
  show ?case
    by (simp add: t Cons.IH found_category_present)
qed

lemma fallback_analysis_eq:
  "fallback_analysis text_content =
     fallback_result (map finding_of (present_clauses text_content)) (absent_clauses text_content) (rule_score text_content)"
  by (simp add: fallback_analysis_def check_terms_eq present_clauses_def absent_clauses_def
        rule_score_def)

lemma length_key_terms: "length key_terms = 9"
  by (simp add: key_terms_def)

lemma present_absent_length:
  "length (present_clauses text_content) + length (absent_clauses text_content) = 9"
  unfolding present_clauses_def absent_clauses_def length_map
  using sum_length_filter_compl [of "\<lambda>(clause, keywords). category_present keywords text_content" key_terms]
  by (simp add: length_key_terms case_prod_unfold)

lemma rule_score_count:
  "rule_score text_content = 70 + 5 * int (length (present_clauses text_content)) - 10 * int (length (absent_clauses text_content))"
proof -
  have "sum_list (map (\<lambda>(clause, keywords). if category_present keywords text_content then 5 else - 10) ts)
        = 5 * int (length (filter (\<lambda>(clause, keywords). category_present keywords text_content) ts))
          - 10 * int (length (filter (\<lambda>(clause, keywords). \<not> category_present keywords text_content) ts))"
    for ts :: "(string \<times> string list) list"
    by (induction ts) auto
  then show ?thesis
    by (simp add: rule_score_def present_clauses_def absent_clauses_def)
qed

lemma risk_of_clamp: "risk_of s = rule_risk (clamp_score s)"
  by (simp add: risk_of_def rule_risk_def clamp_score_def)

lemma max_min_clamp: "max 0 (min 100 s) = clamp_score s"
  by (simp add: clamp_score_def)

text \<open>
  Claim C2. For every text, the fallback analysis computes its compliance score by the
  rule: start at 70, add 5 for each of the nine categories of which a keyword variant occurs
  in the lower-cased text (a finding is appended), subtract 10 for each other category (its
  name is appended to the missing clauses), and clamp to 0..100; the risk level is low from
  80 on, medium from 60 to below 80 and high below 60. A text with all nine categories gets
  100 and low, a text with none gets 0 and high.
\<close>

theorem fallback_score_rule:
  "length key_terms = 9
   \<and> path (fallback_analysis text_content) [''overall_assessment'', ''compliance_score'']
       = Some (JInt (clamp_score (rule_score text_content)))
   \<and> path (fallback_analysis text_content) [''overall_assessment'', ''risk_level'']
       = Some (JStr (rule_risk (clamp_score (rule_score text_content))))
   \<and> map (\<lambda>s. path s [''findings'']) (sections (fallback_analysis text_content))
       = [Some (JArr (map JStr (map finding_of (present_clauses text_content))))]
   \<and> path (fallback_analysis text_content) [''missing_clauses'']
       = Some (JArr (map JStr (absent_clauses text_content)))
   \<and> (absent_clauses text_content = [] \<longrightarrow>
        path (fallback_analysis text_content) [''overall_assessment'', ''compliance_score''] = Some (JInt 100)
        \<and> path (fallback_analysis text_content) [''overall_assessment'', ''risk_level''] = Some (JStr ''low''))
   \<and> (present_clauses text_content = [] \<longrightarrow>
        path (fallback_analysis text_content) [''overall_assessment'', ''compliance_score''] = Some (JInt 0)
        \<and> path (fallback_analysis text_content) [''overall_assessment'', ''risk_level''] = Some (JStr ''high''))"
proof -
  let ?r = "fallback_analysis text_content"
  have sc: "path ?r [''overall_assessment'', ''compliance_score'']
       = Some (JInt (clamp_score (rule_score text_content)))"
    by (simp add: fallback_analysis_eq fallback_result_def field_def max_min_clamp)
  have rl: "path ?r [''overall_assessment'', ''risk_level'']
       = Some (JStr (rule_risk (clamp_score (rule_score text_content))))"
    by (simp add: fallback_analysis_eq fallback_result_def field_def risk_of_clamp)
  have fi: "map (\<lambda>s. path s [''findings'']) (sections ?r)
       = [Some (JArr (map JStr (map finding_of (present_clauses text_content))))]"
    by (simp add: fallback_analysis_eq fallback_result_def field_def sections_def)
  have mi: "path ?r [''missing_clauses''] = Some (JArr (map JStr (absent_clauses text_content)))"
    by (simp add: fallback_analysis_eq fallback_result_def field_def)
  have all9: "path ?r [''overall_assessment'', ''compliance_score''] = Some (JInt 100)
       \<and> path ?r [''overall_assessment'', ''risk_level''] = Some (JStr ''low'')"
    if "absent_clauses text_content = []"
  proof -
    have "clamp_score (rule_score text_content) = 100"
      using that present_absent_length [of text_content]
      by (simp add: rule_score_count clamp_score_def)
    then show ?thesis
      using sc rl by (simp del: path.simps add: rule_risk_def)
  qed
  have none: "path ?r [''overall_assessment'', ''compliance_score''] = Some (JInt 0)
       \<and> path ?r [''overall_assessment'', ''risk_level''] = Some (JStr ''high'')"
    if "present_clauses text_content = []"
  proof -
    have "clamp_score (rule_score text_content) = 0"
      using that present_absent_length [of text_content]
      by (simp add: rule_score_count clamp_score_def)
    then show ?thesis
      using sc rl by (simp del: path.simps add: rule_risk_def)
  qed
  from length_key_terms sc rl fi mi all9 none show ?thesis
    by blast
qed

theorem fallback_score_rule_witness:
  "absent_clauses all_nine_text = [] \<and> present_clauses [] = []
   \<and> path (fallback_analysis all_nine_text) [''overall_assessment'', ''compliance_score''] = Some (JInt 100)
   \<and> path (fallback_analysis all_nine_text) [''overall_assessment'', ''risk_level''] = Some (JStr ''low'')
   \<and> path (fallback_analysis []) [''overall_assessment'', ''compliance_score''] = Some (JInt 0)
   \<and> path (fallback_analysis []) [''overall_assessment'', ''risk_level''] = Some (JStr ''high'')"
proof -
  have l: "str_lower all_nine_text =
      ''the controller and the processor handle personal data under the gdpr, with encryption, breach notification, the right to access, deletion and every third party.''"
    by code_simp
  have a: "absent_clauses all_nine_text = []"
    unfolding absent_clauses_def category_present_def occurs_in_def l key_terms_def
    by code_simp
  have p: "present_clauses [] = []"
    by code_simp
  show ?thesis
    using a p fallback_score_rule [of all_nine_text] fallback_score_rule [of "[]"] by blast
qed

lemma distinct_clause_names: "distinct (map fst key_terms)"
  by (simp add: key_terms_def)

lemma distinct_filter_split:
  "distinct (map f xs) \<Longrightarrow>
     distinct (map f (filter P xs) @ map f (filter (\<lambda>x. \<not> P x) xs))"
  by (induction xs) auto

lemma set_filter_split:
  "set (map f (filter P xs) @ map f (filter (\<lambda>x. \<not> P x) xs)) = set (map f xs)"
  by auto

lemma str_of_nat_digit: "n < 10 \<Longrightarrow> str_of_nat n = [''0123456789'' ! n]"
  by simp

lemma items_fallback_missing:
  "items (fallback_analysis t) ''missing_clauses'' = map JStr (absent_clauses t)"
  by (simp add: items_def fallback_analysis_eq fallback_result_def field_def)

lemma section_items_fallback_findings:
  "section_items (fallback_analysis t) ''findings'' = map JStr (map finding_of (present_clauses t))"
  by (simp add: section_items_def items_def sections_def fallback_analysis_eq fallback_result_def
      field_def)

text \<open>
  Claim C9. For every text, the fallback analysis puts each of the nine categories into
  exactly one of the findings and the missing clauses, so the findings and the missing
  clauses of its result number nine together, and the executive summary shows these two
  numbers, each as its decimal digit.
\<close>

theorem fallback_partition:
  "section_items (fallback_analysis text_content) ''findings''
       = map JStr (map finding_of (present_clauses text_content))
   \<and> items (fallback_analysis text_content) ''missing_clauses''
       = map JStr (absent_clauses text_content)
   \<and> distinct (present_clauses text_content @ absent_clauses text_content)
   \<and> set (present_clauses text_content @ absent_clauses text_content) = set (map fst key_terms)
   \<and> length key_terms = 9
   \<and> length (section_items (fallback_analysis text_content) ''findings'')
       + length (items (fallback_analysis text_content) ''missing_clauses'') = 9
   \<and> path (fallback_analysis text_content) [''overall_assessment'', ''executive_summary'']
       = Some (JStr (''Rule-based analysis completed. ''
            @ [''0123456789'' ! length (section_items (fallback_analysis text_content) ''findings'')]
            @ '' key provisions identified, ''
            @ [''0123456789'' ! length (items (fallback_analysis text_content) ''missing_clauses'')]
            @ '' clauses may be missing.''))"
proof -
  let ?r = "fallback_analysis text_content"
  let ?P = "\<lambda>(clause, keywords). category_present keywords text_content"
  let ?k = "length (present_clauses text_content)"
  let ?m = "length (absent_clauses text_content)"
  note fi = section_items_fallback_findings [of text_content]
  note mi = items_fallback_missing [of text_content]
  have neg: "(\<lambda>(clause, keywords). \<not> category_present keywords text_content) = (\<lambda>x. \<not> ?P x)"
    by (simp add: case_prod_unfold)
  have di: "distinct (present_clauses text_content @ absent_clauses text_content)"
    unfolding present_clauses_def absent_clauses_def neg
    by (rule distinct_filter_split [OF distinct_clause_names])
  have se: "set (present_clauses text_content @ absent_clauses text_content)
       = set (map fst key_terms)"
    unfolding present_clauses_def absent_clauses_def neg
    by (rule set_filter_split)
  have km: "?k + ?m = 9"
    by (rule present_absent_length)
  then have k: "str_of_nat ?k = [''0123456789'' ! ?k]" and m: "str_of_nat ?m = [''0123456789'' ! ?m]"
    by (simp_all only: str_of_nat_digit)
  have len: "length (section_items ?r ''findings'') + length (items ?r ''missing_clauses'') = 9"
    using km by (simp add: fi mi)
  have "path ?r [''overall_assessment'', ''executive_summary'']
       = Some (JStr (''Rule-based analysis completed. '' @ str_of_nat ?k
                      @ '' key provisions identified, '' @ str_of_nat ?m
                      @ '' clauses may be missing.''))"
    by (simp add: fallback_analysis_eq fallback_result_def field_def executive_summary_of_def)
  then have su: "path ?r [''overall_assessment'', ''executive_summary'']
       = Some (JStr (''Rule-based analysis completed. ''
            @ [''0123456789'' ! length (section_items ?r ''findings'')]
            @ '' key provisions identified, ''
            @ [''0123456789'' ! length (items ?r ''missing_clauses'')]
            @ '' clauses may be missing.''))"
    unfolding k m by (simp del: path.simps add: fi mi)
  from fi mi di se length_key_terms len su show ?thesis
    by blast
qed

lemma two_category_lower:
  "str_lower two_category_text = ''every sub-processor is listed in annex 2.''"
  by code_simp

lemma two_category_present:
  "present_clauses two_category_text = [''data processor'', ''subprocessor'']"
  unfolding present_clauses_def category_present_def occurs_in_def two_category_lower key_terms_def
  by code_simp

lemma two_category_absent:
  "absent_clauses two_category_text =
     [''data controller'', ''personal data'', ''gdpr'', ''security measures'', ''data breach'',
      ''data subject rights'', ''retention'']"
  unfolding absent_clauses_def category_present_def occurs_in_def two_category_lower key_terms_def
  by code_simp

theorem fallback_partition_witness:
  "length (section_items (fallback_analysis two_category_text) ''findings'') = 2
   \<and> items (fallback_analysis two_category_text) ''missing_clauses'' =
       [JStr ''data controller'', JStr ''personal data'', JStr ''gdpr'', JStr ''security measures'',
        JStr ''data breach'', JStr ''data subject rights'', JStr ''retention'']
   \<and> path (fallback_analysis two_category_text) [''overall_assessment'', ''executive_summary'']
       = Some (JStr ''Rule-based analysis completed. 2 key provisions identified, 7 clauses may be missing.'')"
proof -
  note p = fallback_partition [of two_category_text]
  from p have f: "length (section_items (fallback_analysis two_category_text) ''findings'') = 2"
    by (simp del: path.simps add: two_category_present)
  from p have m: "items (fallback_analysis two_category_text) ''missing_clauses'' =
       [JStr ''data controller'', JStr ''personal data'', JStr ''gdpr'', JStr ''security measures'',
        JStr ''data breach'', JStr ''data subject rights'', JStr ''retention'']"
    by (simp del: path.simps add: two_category_absent)
  from p have "path (fallback_analysis two_category_text) [''overall_assessment'', ''executive_summary'']
       = Some (JStr (''Rule-based analysis completed. ''
            @ [''0123456789'' ! length (section_items (fallback_analysis two_category_text) ''findings'')]
            @ '' key provisions identified, ''
            @ [''0123456789'' ! length (items (fallback_analysis two_category_text) ''missing_clauses'')]
            @ '' clauses may be missing.''))"
    by blast
  then have "path (fallback_analysis two_category_text) [''overall_assessment'', ''executive_summary'']
       = Some (JStr ''Rule-based analysis completed. 2 key provisions identified, 7 clauses may be missing.'')"
    unfolding f m by (simp del: path.simps)
  with f m show ?thesis
    by blast
qed

lemma str_lower_keyword:
  "str_lower ''subprocessor'' = ''subprocessor''" "str_lower ''sub-processor'' = ''sub-processor''"
  by code_simp+

lemma sublist_lower: "sublist kw t \<Longrightarrow> str_lower kw = kw \<Longrightarrow> occurs_in kw t"
  unfolding occurs_in_def str_lower_def
  by (metis map_mono_sublist)

lemma processor_in_subprocessor:
  "sublist ''processor'' ''subprocessor''" "sublist ''processor'' ''sub-processor''"
  by code_simp+

lemma absent_clauseD:
  "clause \<in> set (absent_clauses t) \<Longrightarrow>
     \<exists>kws. (clause, kws) \<in> set key_terms \<and> \<not> category_present kws t"
  by (auto simp: absent_clauses_def)

lemma data_processor_keywords:
  "(''data processor'', kws) \<in> set key_terms \<Longrightarrow> kws = [''data processor'', ''processor'']"
  by (simp add: key_terms_def)

lemma present_clauseI:
  "(clause, kws) \<in> set key_terms \<Longrightarrow> category_present kws t \<Longrightarrow> clause \<in> set (present_clauses t)"
  by (force simp: present_clauses_def)

lemma data_processor_entry:
  "map_of key_terms ''data processor'' = Some [''data processor'', ''processor'']"
  by (simp add: key_terms_def)

lemma data_processor_filter:
  "filter (\<lambda>(clause, kws). clause = ''data processor'') key_terms
     = [(''data processor'', [''data processor'', ''processor''])]"
  by (simp add: key_terms_def)

text \<open>
  Claim C10. Matching is substring search on the lower-cased text, and the table of key
  terms lists \<open>processor\<close> as a keyword variant of the data processor category. So for
  every text that contains \<open>subprocessor\<close> or \<open>sub-processor\<close> (as written, or up to
  case) the scorer finds the data processor category: its entry of the table is found in
  the lower-cased text, its finding is among the findings of the result, and
  \<open>data processor\<close> is not among the missing clauses of the result.
\<close>

theorem subprocessor_matches_data_processor:
  assumes "sublist ''subprocessor'' text_content \<or> sublist ''sub-processor'' text_content
           \<or> occurs_in ''subprocessor'' text_content \<or> occurs_in ''sub-processor'' text_content"
  shows "map_of key_terms ''data processor'' = Some [''data processor'', ''processor'']
         \<and> map (\<lambda>(clause, kws). found kws (str_lower text_content))
               (filter (\<lambda>(clause, kws). clause = ''data processor'') key_terms) = [True]
         \<and> ''data processor'' \<in> set (present_clauses text_content)
         \<and> JStr (finding_of ''data processor'')
               \<in> set (section_items (fallback_analysis text_content) ''findings'')
         \<and> items (fallback_analysis text_content) ''missing_clauses''
               = map JStr (absent_clauses text_content)
         \<and> ''data processor'' \<notin> set (absent_clauses text_content)
         \<and> JStr ''data processor'' \<notin> set (items (fallback_analysis text_content) ''missing_clauses'')"
proof -
  from assms have "occurs_in ''subprocessor'' text_content \<or> occurs_in ''sub-processor'' text_content"
    using sublist_lower str_lower_keyword by blast
  then have "occurs_in ''processor'' text_content"
    unfolding occurs_in_def
    using processor_in_subprocessor sublist_order.order_trans by blast
  then have pres: "category_present [''data processor'', ''processor''] text_content"
    by (simp add: category_present_def)
  then have fo: "found [''data processor'', ''processor''] (str_lower text_content)"
    by (simp add: found_category_present)
  then have ma: "map (\<lambda>(clause, kws). found kws (str_lower text_content))
               (filter (\<lambda>(clause, kws). clause = ''data processor'') key_terms) = [True]"
    by (simp add: data_processor_filter)
  have "(''data processor'', [''data processor'', ''processor'']) \<in> set key_terms"
    using data_processor_entry by (rule map_of_SomeD)
  with pres have pc: "''data processor'' \<in> set (present_clauses text_content)"
    by (rule present_clauseI [rotated])
  then have fi: "JStr (finding_of ''data processor'')
               \<in> set (section_items (fallback_analysis text_content) ''findings'')"
    by (simp add: section_items_fallback_findings)
  note mi = items_fallback_missing [of text_content]
  have ab: "''data processor'' \<notin> set (absent_clauses text_content)"
    using pres absent_clauseD data_processor_keywords by blast
  then have nm: "JStr ''data processor''
      \<notin> set (items (fallback_analysis text_content) ''missing_clauses'')"
    by (auto simp: mi)
  from data_processor_entry ma pc fi mi ab nm show ?thesis
    by blast
qed

theorem subprocessor_matches_data_processor_witness:
  "sublist ''sub-processor'' (str_lower two_category_text)
   \<and> ''data processor'' \<in> set (present_clauses two_category_text)
   \<and> JStr (finding_of ''data processor'')
         \<in> set (section_items (fallback_analysis two_category_text) ''findings'')
   \<and> JStr ''data processor'' \<notin> set (items (fallback_analysis two_category_text) ''missing_clauses'')"
proof -
  have h: "sublist ''sub-processor'' (str_lower two_category_text)"
    unfolding two_category_lower by code_simp
  then have "occurs_in ''sub-processor'' two_category_text"
    by (simp add: occurs_in_def)
  with h subprocessor_matches_data_processor [of two_category_text] show ?thesis
    by blast
qed

section \<open>Properties of the response recovery\<close>

lemma str_find_notin: "c \<notin> set s \<Longrightarrow> str_find s c = - 1"
  by (induction s) auto

lemma str_find_in: "c \<in> set s \<Longrightarrow> str_find s c = int (length (takeWhile (\<lambda>x. x \<noteq> c) s))"
proof (induction s)
  case Nil
  then show ?case by simp
next
  case (Cons x xs)
  show ?case
  proof (cases "x = c")
    case True
    then show ?thesis by simp
  next
    case False
    with Cons.prems have "c \<in> set xs" by simp
    with Cons.IH False show ?thesis by (simp add: Let_def)
  qed
qed

lemma str_rfind_notin: "c \<notin> set s \<Longrightarrow> str_rfind s c = - 1"
  by (induction s) (auto simp: Let_def)

lemma length_takeWhile_lt:
  "c \<in> set xs \<Longrightarrow> length (takeWhile (\<lambda>x. x \<noteq> c) xs) < length xs"
  by (induction xs) auto

lemma takeWhile_all: "c \<notin> set xs \<Longrightarrow> takeWhile (\<lambda>x. x \<noteq> c) xs = xs"
  by (induction xs) auto

lemma takeWhile_append_all:
  "c \<notin> set ys \<Longrightarrow> takeWhile (\<lambda>x. x \<noteq> c) (ys @ zs) = ys @ takeWhile (\<lambda>x. x \<noteq> c) zs"
  by (induction ys) auto

lemma takeWhile_snoc: "c \<notin> set ys \<Longrightarrow> takeWhile (\<lambda>x. x \<noteq> c) (ys @ [c]) = ys"
  by (induction ys) auto

lemma str_rfind_in:
  "c \<in> set s \<Longrightarrow>
     str_rfind s c = int (length s) - 1 - int (length (takeWhile (\<lambda>x. x \<noteq> c) (rev s)))"
proof (induction s)
  case Nil
  then show ?case by simp
next
  case (Cons x xs)
  show ?case
  proof (cases "c \<in> set xs")
    case True
    then have lt: "length (takeWhile (\<lambda>x. x \<noteq> c) (rev xs)) < length xs"
      using length_takeWhile_lt [of c "rev xs"] by simp
    from True have tw: "takeWhile (\<lambda>x. x \<noteq> c) (rev xs @ [x]) = takeWhile (\<lambda>x. x \<noteq> c) (rev xs)"
      by (simp add: takeWhile_append1)
    from True Cons.IH lt have "str_rfind xs c \<noteq> - 1"
      by simp
    with True Cons.IH tw show ?thesis
      by (simp add: Let_def)
  next
    case False
    with Cons.prems have xc: "x = c" by simp
    from False have tw: "takeWhile (\<lambda>x. x \<noteq> c) (rev xs @ [c]) = rev xs"
      by (simp add: takeWhile_snoc)
    from False xc tw show ?thesis
      by (simp add: Let_def str_rfind_notin)
  qed
qed

lemma str_slice_nat:
  "j \<le> length s \<Longrightarrow> str_slice s (int i) (int j) = take (j - i) (drop i s)"
proof -
  assume j: "j \<le> length s"
  show ?thesis
  proof (cases "i \<le> length s")
    case True
    with j show ?thesis
      by (simp add: str_slice_def Let_def min_def nat_diff_distrib')
  next
    case False
    with j show ?thesis
      by (simp add: str_slice_def Let_def min_def)
  qed
qed

lemma slice_between_braces:
  assumes "CHR ''{'' \<in> set s"
  shows "str_slice s (str_find s (CHR ''{'')) (str_rfind s (CHR ''}'') + 1) = between_braces s"
proof -
  let ?Q = "\<lambda>c. c \<noteq> CHR ''{''" and ?P = "\<lambda>c. c \<noteq> CHR ''}''"
  define b where "b = length (takeWhile ?Q s)"
  define u where "u = dropWhile ?Q s"
  define k where "k = length (takeWhile ?P (rev u))"
  have u: "u = drop b s"
    by (simp add: u_def b_def dropWhile_eq_drop)
  have b_le: "b \<le> length s"
    by (simp add: b_def length_takeWhile_le)
  have lu: "length u = length s - b"
    by (simp add: u)
  have start: "str_find s (CHR ''{'') = int b"
    unfolding b_def using assms by (rule str_find_in)
  have revs: "rev s = rev u @ rev (takeWhile ?Q s)"
    unfolding u_def by (metis rev_append takeWhile_dropWhile_id)
  have "dropWhile ?P (rev u) = drop k (rev u)"
    by (simp add: k_def dropWhile_eq_drop)
  then have rhs: "between_braces s = take (length u - k) u"
    unfolding between_braces_def u_def [symmetric]
    by (simp add: rev_drop)
  show ?thesis
  proof (cases "CHR ''}'' \<in> set u")
    case True
    then have ins: "CHR ''}'' \<in> set s"
      unfolding u_def by (meson set_dropWhileD)
    from True have tw: "takeWhile ?P (rev s) = takeWhile ?P (rev u)"
      unfolding revs by (simp add: takeWhile_append1)
    have k_lt: "k < length u"
      unfolding k_def using True length_takeWhile_lt [of "CHR ''}''" "rev u"] by simp
    have "str_rfind s (CHR ''}'') + 1 = int (length s) - int k"
      using str_rfind_in [OF ins] tw by (simp add: k_def)
    also have "\<dots> = int (length s - k)"
      using k_lt lu by simp
    finally have stop: "str_rfind s (CHR ''}'') + 1 = int (length s - k)" .
    have "str_slice s (int b) (int (length s - k)) = take (length s - k - b) (drop b s)"
      by (rule str_slice_nat) simp
    also have "\<dots> = take (length u - k) u"
      by (simp add: u add.commute)
    finally show ?thesis
      by (simp add: start stop rhs)
  next
    case False
    then have "CHR ''}'' \<notin> set (rev u)"
      by simp
    then have "takeWhile ?P (rev u) = rev u"
      by (rule takeWhile_all)
    then have ku: "k = length u"
      unfolding k_def by (metis length_rev)
    obtain e where stop: "str_rfind s (CHR ''}'') + 1 = int e" and e_le: "e \<le> b"
    proof (cases "CHR ''}'' \<in> set s")
      case True
      from False have "takeWhile ?P (rev s) = rev u @ takeWhile ?P (rev (takeWhile ?Q s))"
        unfolding revs by (simp add: takeWhile_append_all)
      then have ge: "length (takeWhile ?P (rev s)) \<ge> length u"
        by simp
      have lt: "length (takeWhile ?P (rev s)) < length s"
        using True length_takeWhile_lt [of "CHR ''}''" "rev s"] by simp
      have "str_rfind s (CHR ''}'') + 1 = int (length s - length (takeWhile ?P (rev s)))"
        using str_rfind_in [OF True] lt by simp
      moreover have "length s - length (takeWhile ?P (rev s)) \<le> b"
        using ge lu by simp
      ultimately show ?thesis
        using that by blast
    next
      case False
      then have "str_rfind s (CHR ''}'') + 1 = int 0"
        by (simp add: str_rfind_notin)
      then show ?thesis
        using that by blast
    qed
    have "str_slice s (int b) (int e) = take (e - b) (drop b s)"
      by (rule str_slice_nat) (use e_le b_le in simp)
    then show ?thesis
      using e_le by (simp add: start stop rhs ku)
  qed
qed

lemma replace_newlines_map: "replace_newlines s = map newline_to_space s"
  by (induction s) (simp_all add: newline_to_space_def)

lemma replace_double_spaces_nonspace:
  "c \<noteq> CHR '' '' \<Longrightarrow> replace_double_spaces (c # cs) = c # replace_double_spaces cs"
  by (cases cs) simp_all

lemma replace_double_spaces_run_end:
  "replace_double_spaces (replicate n (CHR '' '')) = replicate ((n + 1) div 2) (CHR '' '')"
proof (induction n rule: less_induct)
  case (less n)
  show ?case
  proof (cases n)
    case 0
    then show ?thesis by simp
  next
    case (Suc m)
    show ?thesis
    proof (cases m)
      case 0
      with Suc show ?thesis by simp
    next
      case (Suc k)
      with \<open>n = Suc m\<close> less.IH [of k] show ?thesis by simp
    qed
  qed
qed

lemma replace_double_spaces_run:
  "c \<noteq> CHR '' '' \<Longrightarrow>
     replace_double_spaces (replicate n (CHR '' '') @ c # cs)
       = replicate ((n + 1) div 2) (CHR '' '') @ c # replace_double_spaces cs"
proof (induction n rule: less_induct)
  case (less n)
  show ?case
  proof (cases n)
    case 0
    with less.prems show ?thesis by (simp add: replace_double_spaces_nonspace)
  next
    case (Suc m)
    show ?thesis
    proof (cases m)
      case 0
      with Suc less.prems show ?thesis by (simp add: replace_double_spaces_nonspace)
    next
      case (Suc k)
      with \<open>n = Suc m\<close> less.IH [of k] less.prems show ?thesis by simp
    qed
  qed
qed

lemma replicate_shift: "replicate n x @ x # xs = x # replicate n x @ xs"
  by (induction n) simp_all

lemma replace_double_spaces_halve:
  "replace_double_spaces (replicate n (CHR '' '') @ s) = halve_runs n s"
proof (induction s arbitrary: n)
  case Nil
  show ?case by (simp add: replace_double_spaces_run_end)
next
  case (Cons c cs)
  show ?case
  proof (cases "c = CHR '' ''")
    case True
    have "replace_double_spaces (replicate n (CHR '' '') @ c # cs)
        = replace_double_spaces (replicate (Suc n) (CHR '' '') @ cs)"
      using True by (simp add: replicate_shift)
    also have "\<dots> = halve_runs (Suc n) cs"
      by (rule Cons.IH)
    also have "\<dots> = halve_runs n (c # cs)"
      using True by simp
    finally show ?thesis .
  next
    case False
    with Cons.IH [of 0] show ?thesis
      by (simp add: replace_double_spaces_run)
  qed
qed

lemma normalise_eq: "replace_double_spaces (replace_newlines s) = normalised s"
  using replace_double_spaces_halve [of 0 "map newline_to_space s"]
  by (simp add: normalised_def replace_newlines_map)

lemma str_rfind_ge: "- 1 \<le> str_rfind s c"
  by (induction s) (auto simp: Let_def)

lemma recover_stage1: "decode (str_strip t) = Loaded v \<Longrightarrow> recover decode t = v"
  by (simp add: recover_def)

lemma recover_other: "decode (str_strip t) = OtherException \<Longrightarrow> recover decode t = degraded_result"
  by (simp add: recover_def)

lemma recover_no_open:
  "decode (str_strip t) = JSONDecodeError \<Longrightarrow> CHR ''{'' \<notin> set (str_strip t) \<Longrightarrow>
     recover decode t = degraded_result"
  by (simp add: recover_def str_find_notin)

lemma recover_stage2:
  assumes "decode (str_strip t) = JSONDecodeError" and "CHR ''{'' \<in> set (str_strip t)"
  shows "recover decode t =
           (case decode (replace_double_spaces (replace_newlines (between_braces (str_strip t)))) of
              Loaded v \<Rightarrow> v
            | JSONDecodeError \<Rightarrow> degraded_result
            | OtherException \<Rightarrow> degraded_result)"
proof -
  have start: "str_find (str_strip t) (CHR ''{'') \<noteq> - 1"
    using assms(2) by (simp add: str_find_in)
  have stop: "str_rfind (str_strip t) (CHR ''}'') + 1 \<noteq> - 1"
    using str_rfind_ge [of "str_strip t" "CHR ''}''"] by simp
  show ?thesis
    using assms(1) start stop slice_between_braces [OF assms(2)]
    by (simp add: recover_def Let_def)
qed

lemma dropWhile_none: "c \<notin> set xs \<Longrightarrow> dropWhile (\<lambda>x. x \<noteq> c) xs = []"
  by (induction xs) auto

lemma between_braces_no_close: "CHR ''}'' \<notin> set s \<Longrightarrow> between_braces s = []"
proof -
  assume "CHR ''}'' \<notin> set s"
  then have "CHR ''}'' \<notin> set (rev (dropWhile (\<lambda>c. c \<noteq> CHR ''{'') s))"
    by (auto dest: set_dropWhileD)
  then have "dropWhile (\<lambda>c. c \<noteq> CHR ''}'') (rev (dropWhile (\<lambda>c. c \<noteq> CHR ''{'') s)) = []"
    by (rule dropWhile_none)
  then show ?thesis
    by (simp add: between_braces_def)
qed

lemma degraded_result_valid: "schema_valid degraded_result"
  by (simp add: schema_valid_def schema_with_def degraded_result_def has_def field_def
      valid_overall_def valid_sections_def valid_section_def is_score_def is_risk_level_def
      is_text_def is_text_seq_def is_status_def)

lemma recover_range:
  "recover decode t = degraded_result \<or> (\<exists>s. decode s = Loaded (recover decode t))"
proof (cases "decode (str_strip t)")
  case (Loaded v)
  then show ?thesis by (auto simp: recover_stage1)
next
  case JSONDecodeError
  show ?thesis
  proof (cases "CHR ''{'' \<in> set (str_strip t)")
    case True
    show ?thesis
      unfolding recover_stage2 [where decode = decode and t = t, OF JSONDecodeError True]
      by (cases "decode (replace_double_spaces (replace_newlines (between_braces (str_strip t))))")
         auto
  next
    case False
    then show ?thesis by (simp add: recover_no_open [where decode = decode and t = t, OF JSONDecodeError])
  qed
next
  case OtherException
  then show ?thesis by (simp add: recover_other)
qed

lemma recover_stage2n:
  assumes "decode (str_strip t) = JSONDecodeError" and "CHR ''{'' \<in> set (str_strip t)"
  shows "recover decode t =
           (case decode (normalised (between_braces (str_strip t))) of
              Loaded v \<Rightarrow> v
            | JSONDecodeError \<Rightarrow> degraded_result
            | OtherException \<Rightarrow> degraded_result)"
  using recover_stage2 [where decode = decode and t = t, OF assms]
  by (simp add: normalise_eq)

lemma normalised_Nil: "normalised [] = []"
  by (simp add: normalised_def)

text \<open>
  Claim C1, as amended. For every response text and every decoder the recovery returns a
  value and raises nothing. It returns the value of the direct parse of the stripped text
  when that parse succeeds, as it is and with no check against the schema; the degraded
  dictionary when that parse raises anything but a decode error; and, after a decode
  error with a \<open>{\<close> in the text, the value parsed from the normalised bracket substring
  when that parse succeeds. When the direct parse fails and either no \<open>{\<close> is found or
  the parse of the bracket substring fails as well (which is what happens when no \<open>}\<close> is
  found, for a decoder that rejects the empty text), the result is the degraded
  dictionary: it matches the canonical schema, has compliance score 70, risk level medium,
  and one section with status unclear and the red flag that the response could not be
  parsed.
\<close>

theorem recover_never_raises:
  "(decode (str_strip t) = Loaded v \<longrightarrow> recover decode t = v)
   \<and> (decode (str_strip t) = OtherException \<longrightarrow> recover decode t = degraded_result)
   \<and> (decode (str_strip t) = JSONDecodeError \<and> CHR ''{'' \<in> set (str_strip t)
        \<and> decode (normalised (between_braces (str_strip t))) = Loaded v
       \<longrightarrow> recover decode t = v)
   \<and> (recover decode t = degraded_result \<or> (\<exists>s. decode s = Loaded (recover decode t)))
   \<and> (\<not> is_loaded (decode (str_strip t))
        \<and> (CHR ''{'' \<notin> set (str_strip t)
            \<or> \<not> is_loaded (decode (normalised (between_braces (str_strip t)))))
       \<longrightarrow> recover decode t = degraded_result)
   \<and> (\<not> is_loaded (decode (str_strip t)) \<and> CHR ''}'' \<notin> set (str_strip t)
        \<and> \<not> is_loaded (decode [])
       \<longrightarrow> recover decode t = degraded_result)
   \<and> schema_valid degraded_result
   \<and> path degraded_result [''overall_assessment'', ''compliance_score''] = Some (JInt 70)
   \<and> path degraded_result [''overall_assessment'', ''risk_level''] = Some (JStr ''medium'')
   \<and> map (\<lambda>s. path s [''status'']) (sections degraded_result) = [Some (JStr ''unclear'')]
   \<and> map (\<lambda>s. path s [''red_flags'']) (sections degraded_result)
       = [Some (JArr [JStr ''AI response parsing failed''])]"
proof -
  let ?n = "normalised (between_braces (str_strip t))"
  have s1: "recover decode t = v" if "decode (str_strip t) = Loaded v"
    using that by (rule recover_stage1)
  have s0: "recover decode t = degraded_result" if "decode (str_strip t) = OtherException"
    using that by (rule recover_other)
  have s2: "recover decode t = v"
    if "decode (str_strip t) = JSONDecodeError" and "CHR ''{'' \<in> set (str_strip t)"
      and "decode ?n = Loaded v"
    using recover_stage2n [where decode = decode and t = t, OF that(1,2)] that(3) by simp
  have both: "recover decode t = degraded_result"
    if a: "\<not> is_loaded (decode (str_strip t))"
      and b: "CHR ''{'' \<notin> set (str_strip t) \<or> \<not> is_loaded (decode ?n)"
  proof (cases "decode (str_strip t)")
    case (Loaded v)
    with a show ?thesis by (simp add: is_loaded_def)
  next
    case JSONDecodeError
    show ?thesis
    proof (cases "CHR ''{'' \<in> set (str_strip t)")
      case True
      with b have "\<not> is_loaded (decode ?n)" by simp
      then show ?thesis
        unfolding recover_stage2n [where decode = decode and t = t, OF JSONDecodeError True]
        by (cases "decode ?n") (simp_all add: is_loaded_def)
    next
      case False
      then show ?thesis
        by (simp add: recover_no_open [where decode = decode and t = t, OF JSONDecodeError])
    qed
  next
    case OtherException
    then show ?thesis by (simp add: recover_other)
  qed
  have noclose: "recover decode t = degraded_result"
    if a: "\<not> is_loaded (decode (str_strip t))" and c: "CHR ''}'' \<notin> set (str_strip t)"
      and e: "\<not> is_loaded (decode [])"
  proof -
    from c have "?n = []"
      by (simp add: between_braces_no_close normalised_Nil)
    with e have "\<not> is_loaded (decode ?n)" by simp
    with a show ?thesis by (simp add: both)
  qed
  have v1: "path degraded_result [''overall_assessment'', ''compliance_score''] = Some (JInt 70)"
    by (simp add: degraded_result_def field_def)
  have v2: "path degraded_result [''overall_assessment'', ''risk_level''] = Some (JStr ''medium'')"
    by (simp add: degraded_result_def field_def)
  have v3: "map (\<lambda>s. path s [''status'']) (sections degraded_result) = [Some (JStr ''unclear'')]"
    by (simp add: degraded_result_def field_def sections_def)
  have v4: "map (\<lambda>s. path s [''red_flags'']) (sections degraded_result)
       = [Some (JArr [JStr ''AI response parsing failed''])]"
    by (simp add: degraded_result_def field_def sections_def)
  from s1 s0 s2 recover_range [of decode t] both noclose degraded_result_valid v1 v2 v3 v4
  show ?thesis
    by blast
qed

lemma sample_parses: "json_loads sample_object = Loaded sample_value"
  by code_simp

lemma sample_value_valid: "schema_valid sample_value"
  by code_simp


lemma sample_object_normal:
  "replace_double_spaces (replace_newlines sample_object) = sample_object"
  by code_simp

lemma commentary_sample:
  "json_loads (str_strip (''Here is the result: '' @ sample_object @ '' Thanks!'')) = JSONDecodeError"
  "CHR ''{'' \<in> set (str_strip (''Here is the result: '' @ sample_object @ '' Thanks!''))"
  "CHR ''}'' \<in> set (str_strip (''Here is the result: '' @ sample_object @ '' Thanks!''))"
  by code_simp+

lemma sample_object_stable: "normalised sample_object = sample_object"
  using sample_object_normal by (simp add: normalise_eq)

theorem recover_never_raises_witness:
  "json_loads (str_strip ('' '' @ sample_object)) = Loaded sample_value
   \<and> recover json_loads ('' '' @ sample_object) = sample_value
   \<and> length_limited_loads (str_strip ''{ this text is too long for the decoder }'') = OtherException
   \<and> recover length_limited_loads ''{ this text is too long for the decoder }'' = degraded_result
   \<and> json_loads (str_strip (''Here is the result: '' @ sample_object @ '' Thanks!'')) = JSONDecodeError
   \<and> CHR ''{'' \<in> set (str_strip (''Here is the result: '' @ sample_object @ '' Thanks!''))
   \<and> recover json_loads (''Here is the result: '' @ sample_object @ '' Thanks!'') = sample_value
   \<and> \<not> is_loaded (json_loads (str_strip ''Sorry, no JSON today.''))
   \<and> CHR ''{'' \<notin> set (str_strip ''Sorry, no JSON today.'')
   \<and> recover json_loads ''Sorry, no JSON today.'' = degraded_result
   \<and> \<not> is_loaded (json_loads (str_strip ''{ unfinished''))
   \<and> CHR ''}'' \<notin> set (str_strip ''{ unfinished'')
   \<and> \<not> is_loaded (json_loads [])
   \<and> recover json_loads ''{ unfinished'' = degraded_result"
proof -
  let ?c = "''Here is the result: '' @ sample_object @ '' Thanks!''"
  have "str_strip ('' '' @ sample_object) = sample_object"
    by code_simp
  then have p: "json_loads (str_strip ('' '' @ sample_object)) = Loaded sample_value"
    by (simp add: sample_parses)
  have o: "length_limited_loads (str_strip ''{ this text is too long for the decoder }'')
      = OtherException"
    by code_simp
  have "between_braces (str_strip ?c) = sample_object"
    by code_simp
  then have q: "json_loads (normalised (between_braces (str_strip ?c))) = Loaded sample_value"
    by (simp add: sample_object_stable sample_parses)
  have a: "\<not> is_loaded (json_loads (str_strip ''Sorry, no JSON today.''))"
    by code_simp
  have b: "CHR ''{'' \<notin> set (str_strip ''Sorry, no JSON today.'')"
    by code_simp
  have c: "\<not> is_loaded (json_loads (str_strip ''{ unfinished''))"
    by code_simp
  have d: "CHR ''}'' \<notin> set (str_strip ''{ unfinished'')"
    by code_simp
  have e: "\<not> is_loaded (json_loads [])"
    by code_simp
  from p recover_never_raises [of json_loads "'' '' @ sample_object" sample_value]
  have w1: "recover json_loads ('' '' @ sample_object) = sample_value"
    by blast
  from o recover_never_raises [of length_limited_loads
      "''{ this text is too long for the decoder }''"]
  have w2: "recover length_limited_loads ''{ this text is too long for the decoder }''
      = degraded_result"
    by blast
  from commentary_sample q recover_never_raises [of json_loads ?c sample_value]
  have w3: "recover json_loads ?c = sample_value"
    by blast
  from a b recover_never_raises [of json_loads "''Sorry, no JSON today.''"]
  have w4: "recover json_loads ''Sorry, no JSON today.'' = degraded_result"
    by blast
  from c d e recover_never_raises [of json_loads "''{ unfinished''"]
  have w5: "recover json_loads ''{ unfinished'' = degraded_result"
    by blast
  from p w1 o w2 commentary_sample w3 a b w4 c d e w5 show ?thesis
    by blast
qed

text \<open>
  Claim C1 as stated fails: the response \<open>42\<close> is valid JSON, so the direct parse returns
  the number 42, which is no result of the canonical schema.
\<close>

theorem recover_unvalidated_counterexample:
  "\<not> schema_valid (recover json_loads ''42'')"
  by code_simp









text \<open>
  Claim C8. For every response text whose stripped form the decoder parses, the recovery
  returns the parsed value unchanged; so it does for every valid JSON text of the
  canonical schema.
\<close>

theorem recover_direct_parse:
  assumes "decode (str_strip response_text) = Loaded v"
  shows "recover decode response_text = v"
  using assms by (simp add: recover_def)

theorem recover_direct_parse_witness:
  "json_loads (str_strip ('' '' @ sample_object @ [CHR 0x0A])) = Loaded sample_value
   \<and> schema_valid sample_value
   \<and> recover json_loads ('' '' @ sample_object @ [CHR 0x0A]) = sample_value"
proof -
  have "str_strip ('' '' @ sample_object @ [CHR 0x0A]) = sample_object"
    by code_simp
  then have a: "json_loads (str_strip ('' '' @ sample_object @ [CHR 0x0A])) = Loaded sample_value"
    by (simp add: sample_parses)
  from a recover_direct_parse [where decode = json_loads, OF a] sample_value_valid show ?thesis
    by simp
qed

section \<open>Properties of the pipeline\<close>

lemma dict_get_set:
  "dict_get (dict_set d k v) k' = (if k' = k then Some v else dict_get d k')"
  by (induction d) auto

lemma has_dict_set:
  "has (JObj (dict_set d k v)) k' kind = (if k' = k then kind v else has (JObj d) k' kind)"
  by (simp add: has_def field_def dict_get_set)

lemma has_object: "has v k kind \<Longrightarrow> \<exists>kvs. v = JObj kvs"
  by (cases v) (simp_all add: has_def field_def)

lemma str_endswith_suffix: "str_endswith s suf = suffix suf s"
proof
  assume "str_endswith s suf"
  then have "s = take (length s - length suf) s @ suf"
    by (metis append_take_drop_id str_endswith_def)
  then show "suffix suf s"
    by (metis suffixI)
next
  assume "suffix suf s"
  then obtain ps where "s = ps @ suf"
    by (auto simp: suffix_def)
  then show "str_endswith s suf"
    by (simp add: str_endswith_def)
qed

text \<open>
  Claim C7. For every file name whose lower-cased form ends in none of \<open>.pdf\<close>, \<open>.docx\<close>
  and \<open>.txt\<close>, text extraction fails with the error that names the unsupported format
  and the file name, no text is returned, and the analysis fails with that error before
  any request is sent.
\<close>

theorem unsupported_format_fails:
  assumes "\<not> suffix ''.pdf'' (str_lower filename)"
    and "\<not> suffix ''.docx'' (str_lower filename)"
    and "\<not> suffix ''.txt'' (str_lower filename)"
  shows "extract_text P file_content filename
           = Inl (Exception (''Text extraction failed: Unsupported file format: '' @ filename))
         \<and> analyze_document P file_content filename sent
           = (Inl (Exception (''Document analysis failed: Text extraction failed: ''
                                @ ''Unsupported file format: '' @ filename)), sent)"
proof -
  have ex: "extract_text P file_content filename
           = Inl (Exception (''Text extraction failed: Unsupported file format: '' @ filename))"
    using assms by (simp add: extract_text_def str_endswith_suffix)
  then show ?thesis
    by (simp add: analyze_document_def)
qed

theorem unsupported_format_fails_witness:
  "\<not> suffix ''.pdf'' (str_lower ''contract.DOC'')
   \<and> \<not> suffix ''.docx'' (str_lower ''contract.DOC'')
   \<and> \<not> suffix ''.txt'' (str_lower ''contract.DOC'')
   \<and> analyze_document (sample_platform (TransportFailure ''refused'')) ''abc'' ''contract.DOC'' []
       = (Inl (Exception (''Document analysis failed: Text extraction failed: ''
                            @ ''Unsupported file format: contract.DOC'')), [])"
proof -
  have l: "str_lower ''contract.DOC'' = ''contract.doc''"
    by code_simp
  have a: "\<not> suffix ''.pdf'' (str_lower ''contract.DOC'')"
    "\<not> suffix ''.docx'' (str_lower ''contract.DOC'')"
    "\<not> suffix ''.txt'' (str_lower ''contract.DOC'')"
    unfolding l by code_simp+
  from a unsupported_format_fails [OF a,
      of "sample_platform (TransportFailure ''refused'')" "''abc''" "[]"]
  show ?thesis
    by simp
qed

lemma length_review_sections: "length review_sections = 10"
  by (simp add: review_sections_def)

lemma playbook_review_sections: "field playbook ''review_sections'' = Some (JArr review_sections)"
  by (simp add: playbook_def field_def)

lemma structure_analysis_object:
  "structure_analysis P (JObj kvs) original_text =
     Inr (JObj
       (dict_set
         (dict_set kvs ''metadata''
           (JObj
             [(''document_length'', JInt (int (length original_text))),
              (''analysis_timestamp'', JFloat (loop_time P)),
              (''analyzer_version'', JStr ''1.0.0''),
              (''model_used'', JStr model_name)]))
         ''playbook_reference''
         (JObj
           [(''sections_reviewed'', JInt (int (length review_sections))),
            (''playbook_version'', JStr ''1.0.0'')])))"
  by (simp add: structure_analysis_def)

lemma structure_analysis_Inr:
  "structure_analysis P v original_text = Inr r \<Longrightarrow> \<exists>kvs. v = JObj kvs"
  by (cases v) (simp_all add: structure_analysis_def)

lemma structured_fields:
  assumes "structure_analysis P (JObj kvs) original_text = Inr r"
  shows "path r [''metadata'', ''document_length''] = Some (JInt (int (length original_text)))"
    and "path r [''metadata'', ''analysis_timestamp''] = Some (JFloat (loop_time P))"
    and "path r [''metadata'', ''analyzer_version''] = Some (JStr ''1.0.0'')"
    and "path r [''metadata'', ''model_used''] = Some (JStr model_name)"
    and "path r [''playbook_reference'', ''sections_reviewed'']
           = Some (JInt (int (length review_sections)))"
    and "path r [''playbook_reference'', ''playbook_version''] = Some (JStr ''1.0.0'')"
  using assms
  by (auto simp: structure_analysis_object field_def dict_get_set)


text \<open>
  Claim C6, as amended. The assembler sets \<open>metadata.document_length\<close> to the length of
  the text it is given, which in the pipeline is the whole extracted text and not the
  prefix that went into the prompt; \<open>metadata.analysis_timestamp\<close> to the reading of the
  event loop's clock at assembly; \<open>metadata.model_used\<close> to the configured model name
  \<open>llama3.2:1b\<close>, whichever path produced the result; and
  \<open>playbook_reference.sections_reviewed\<close> to the number of review sections of the
  playbook, which is 10.
\<close>

theorem structure_analysis_augments:
  "(\<exists>r. structure_analysis P (JObj kvs) original_text = Inr r
        \<and> path r [''metadata'', ''document_length''] = Some (JInt (int (length original_text)))
        \<and> path r [''metadata'', ''analysis_timestamp''] = Some (JFloat (loop_time P))
        \<and> path r [''metadata'', ''model_used''] = Some (JStr ''llama3.2:1b'')
        \<and> path r [''playbook_reference'', ''sections_reviewed''] = Some (JInt 10))
   \<and> field playbook ''review_sections'' = Some (JArr review_sections)
   \<and> length review_sections = 10
   \<and> (extract_text P file_content filename = Inr text_content
        \<and> analyze_document P file_content filename sent = (Inr r', sent')
       \<longrightarrow> path r' [''metadata'', ''document_length''] = Some (JInt (int (length text_content)))
           \<and> path r' [''metadata'', ''analysis_timestamp''] = Some (JFloat (loop_time P))
           \<and> path r' [''metadata'', ''model_used''] = Some (JStr ''llama3.2:1b'')
           \<and> path r' [''playbook_reference'', ''sections_reviewed''] = Some (JInt 10))"
proof -
  have fields: "path r [''metadata'', ''document_length''] = Some (JInt (int (length t)))
        \<and> path r [''metadata'', ''analysis_timestamp''] = Some (JFloat (loop_time P))
        \<and> path r [''metadata'', ''model_used''] = Some (JStr ''llama3.2:1b'')
        \<and> path r [''playbook_reference'', ''sections_reviewed''] = Some (JInt 10)"
    if "structure_analysis P (JObj d) t = Inr r" for d t r
    using structured_fields [OF that]
    by (simp del: path.simps add: model_name_def length_review_sections)
  have direct: "\<exists>r. structure_analysis P (JObj kvs) original_text = Inr r
        \<and> path r [''metadata'', ''document_length''] = Some (JInt (int (length original_text)))
        \<and> path r [''metadata'', ''analysis_timestamp''] = Some (JFloat (loop_time P))
        \<and> path r [''metadata'', ''model_used''] = Some (JStr ''llama3.2:1b'')
        \<and> path r [''playbook_reference'', ''sections_reviewed''] = Some (JInt 10)"
    using fields [of kvs original_text] structure_analysis_object [of P kvs original_text]
    by blast
  have pipeline: "path r' [''metadata'', ''document_length''] = Some (JInt (int (length text_content)))
        \<and> path r' [''metadata'', ''analysis_timestamp''] = Some (JFloat (loop_time P))
        \<and> path r' [''metadata'', ''model_used''] = Some (JStr ''llama3.2:1b'')
        \<and> path r' [''playbook_reference'', ''sections_reviewed''] = Some (JInt 10)"
    if ex: "extract_text P file_content filename = Inr text_content"
      and run: "analyze_document P file_content filename sent = (Inr r', sent')"
  proof -
    obtain ar s1 where pa: "perform_ai_analysis P text_content sent = (ar, s1)"
      by (cases "perform_ai_analysis P text_content sent")
    from run ex pa have st: "structure_analysis P ar text_content = Inr r'"
      by (auto simp: analyze_document_def split: sum.splits error.splits)
    then obtain d where "ar = JObj d"
      using structure_analysis_Inr by blast
    with st fields show ?thesis
      by blast
  qed
  from direct playbook_review_sections length_review_sections pipeline show ?thesis
    by blast
qed

theorem structure_analysis_augments_witness:
  "extract_text failing_platform ''data controller'' ''dpa.txt'' = Inr ''data controller''
   \<and> (case fst sample_run of
         Inl e \<Rightarrow> False
       | Inr r \<Rightarrow>
           path r [''metadata'', ''document_length''] = Some (JInt 15)
           \<and> path r [''metadata'', ''analysis_timestamp''] = Some (JFloat ''8125.25'')
           \<and> path r [''metadata'', ''model_used''] = Some (JStr ''llama3.2:1b'')
           \<and> path r [''playbook_reference'', ''sections_reviewed''] = Some (JInt 10))"
proof -
  have e: "extract_text failing_platform ''data controller'' ''dpa.txt'' = Inr ''data controller''"
    by code_simp
  have "case fst sample_run of Inl e \<Rightarrow> False | Inr r \<Rightarrow> True"
    by code_simp
  then obtain r where r: "fst sample_run = Inr r"
    by (cases "fst sample_run") auto
  then have run: "analyze_document failing_platform ''data controller'' ''dpa.txt'' []
      = (Inr r, snd sample_run)"
    by (metis prod.collapse sample_run_def)
  have lt: "loop_time failing_platform = ''8125.25''"
    by (simp add: failing_platform_def sample_platform_def)
  from structure_analysis_augments [of failing_platform "[]" "[]" "''data controller''"
      "''dpa.txt''" "''data controller''" "[]" r "snd sample_run"] e run
  have "path r [''metadata'', ''document_length''] = Some (JInt (int (length ''data controller'')))
           \<and> path r [''metadata'', ''analysis_timestamp''] = Some (JFloat (loop_time failing_platform))
           \<and> path r [''metadata'', ''model_used''] = Some (JStr ''llama3.2:1b'')
           \<and> path r [''playbook_reference'', ''sections_reviewed''] = Some (JInt 10)"
    by blast
  with e r lt show ?thesis
    by (simp del: path.simps)
qed

text \<open>
  Claim C6 as stated fails: the timestamp is read from the event loop's monotonic clock,
  so on a platform whose two clocks differ it is not the wall-clock time.
\<close>

theorem timestamp_not_wall_clock_counterexample:
  "(case structure_analysis failing_platform degraded_result ''abc'' of
      Inl e \<Rightarrow> False
    | Inr r \<Rightarrow> path r [''metadata'', ''analysis_timestamp'']
               \<noteq> Some (JFloat (wall_time failing_platform)))"
  by code_simp

lemma text_seq_map: "is_text_seq (JArr (map JStr xs))"
  by (induction xs) (simp_all add: is_text_seq_def is_text_def)

lemma risk_of_level: "is_risk_level (JStr (risk_of s))"
  by (simp add: is_risk_level_def risk_of_def)

lemma fallback_result_schema:
  "schema_with is_integer (fallback_result findings missing score)"
  using text_seq_map [of findings] text_seq_map [of missing]
  by (simp add: schema_with_def fallback_result_def has_def field_def valid_overall_def
      valid_sections_def valid_section_def is_score_def risk_of_level is_text_def
      is_status_def is_integer_def is_text_seq_def)

lemma fallback_analysis_schema: "schema_with is_integer (fallback_analysis t)"
  by (simp add: fallback_analysis_eq fallback_result_schema)

lemma assembled_schema:
  assumes "schema_with kind v"
  shows "\<exists>r. structure_analysis P v t = Inr r \<and> assembled_with kind r"
proof -
  from assms obtain kvs where v: "v = JObj kvs"
    unfolding schema_with_def using has_object by blast
  let ?r = "JObj
       (dict_set
         (dict_set kvs ''metadata''
           (JObj
             [(''document_length'', JInt (int (length t))),
              (''analysis_timestamp'', JFloat (loop_time P)),
              (''analyzer_version'', JStr ''1.0.0''),
              (''model_used'', JStr model_name)]))
         ''playbook_reference''
         (JObj
           [(''sections_reviewed'', JInt (int (length review_sections))),
            (''playbook_version'', JStr ''1.0.0'')]))"
  have m: "valid_metadata (JObj
             [(''document_length'', JInt (int (length t))),
              (''analysis_timestamp'', JFloat (loop_time P)),
              (''analyzer_version'', JStr ''1.0.0''),
              (''model_used'', JStr model_name)])"
    by (simp add: valid_metadata_def has_def field_def is_integer_def is_timestamp_def is_text_def)
  have p: "valid_playbook_reference (JObj
           [(''sections_reviewed'', JInt (int (length review_sections))),
            (''playbook_version'', JStr ''1.0.0'')])"
    by (simp add: valid_playbook_reference_def has_def field_def is_integer_def is_text_def)
  have "schema_with kind ?r"
    using assms unfolding v schema_with_def by (simp add: has_dict_set)
  with m p have "assembled_with kind ?r"
    by (simp add: assembled_with_def has_dict_set)
  then show ?thesis
    by (simp add: v structure_analysis_object)
qed

text \<open>
  Claim C3, as amended. Every result that the fallback analysis builds reaches the caller
  with every field of the canonical schema present and of its type, its compliance score
  an integer in 0..100 and its section score an integer. The degraded dictionary of the
  recovery reaches the caller matching the schema in full, with section score 70. A parsed
  model response is passed on without a check; when it matches the schema, so does the
  assembled result.
\<close>

theorem assembled_results_schema:
  "(\<exists>r. structure_analysis P (fallback_analysis t) t = Inr r \<and> assembled_with is_integer r)
   \<and> has (fallback_analysis t) ''overall_assessment'' valid_overall
   \<and> (\<exists>r. structure_analysis P degraded_result t = Inr r \<and> assembled_valid r)
   \<and> map (\<lambda>s. path s [''score'']) (sections degraded_result) = [Some (JInt 70)]
   \<and> (schema_valid v \<longrightarrow> (\<exists>r. structure_analysis P v t = Inr r \<and> assembled_valid r))
   \<and> (decode (str_strip response_text) = Loaded v \<longrightarrow> recover decode response_text = v)"
proof -
  have a: "\<exists>r. structure_analysis P (fallback_analysis t) t = Inr r \<and> assembled_with is_integer r"
    using fallback_analysis_schema by (rule assembled_schema)
  have b: "has (fallback_analysis t) ''overall_assessment'' valid_overall"
    using fallback_analysis_schema [of t] by (simp add: schema_with_def)
  have c: "\<exists>r. structure_analysis P v t = Inr r \<and> assembled_valid r" if "schema_valid v" for v
    using that assembled_schema [of is_score v P t]
    by (simp add: schema_valid_def assembled_valid_def)
  have d: "map (\<lambda>s. path s [''score'']) (sections degraded_result) = [Some (JInt 70)]"
    by (simp add: degraded_result_def sections_def field_def)
  from a b c c [OF degraded_result_valid] d recover_stage1 [of decode response_text v]
  show ?thesis
    by blast
qed

theorem assembled_results_schema_witness:
  "schema_valid sample_value
   \<and> json_loads (str_strip sample_object) = Loaded sample_value
   \<and> recover json_loads sample_object = sample_value
   \<and> (\<exists>r. structure_analysis failing_platform sample_value ''abc'' = Inr r \<and> assembled_valid r)"
proof -
  have "str_strip sample_object = sample_object"
    by code_simp
  then have p: "json_loads (str_strip sample_object) = Loaded sample_value"
    by (simp add: sample_parses)
  from assembled_results_schema [of failing_platform "''abc''" sample_value json_loads
      sample_object] sample_value_valid p
  show ?thesis
    by blast
qed

text \<open>
  Claim C3 as stated fails on the recovery path: the model response \<open>{}\<close> is valid JSON,
  it is returned as the analysis result, and the caller gets a dictionary that holds the
  assembler's two fields and nothing else.
\<close>

theorem unvalidated_result_counterexample:
  "(case analyze_document
           (sample_platform (HttpResponse 200 (Inr (JObj [(''response'', JStr ''{}'')]))))
           ''data controller'' ''dpa.txt'' [] of
      (Inl e, sent) \<Rightarrow> False
    | (Inr r, sent) \<Rightarrow> field r ''overall_assessment'' = None \<and> \<not> assembled_valid r)"
  by code_simp

text \<open>
  When the one request to the model ends in a transport failure or in a status other than
  200, the analysis goes on with the rule-based result: exactly one request has been sent,
  nothing is raised, and the caller gets the assembled fallback result.
\<close>

lemma model_failure_falls_back:
  assumes "endpoint P (length sent)
             (request_payload (create_analysis_prompt t playbook key_clauses risk_indicators))
           = reply"
    and "(\<exists>e. reply = TransportFailure e)
         \<or> (\<exists>status body. reply = HttpResponse status body \<and> status \<noteq> 200)"
  shows "perform_ai_analysis P t sent
           = (fallback_analysis t,
              sent @ [request_payload (create_analysis_prompt t playbook key_clauses
                                         risk_indicators)])"
  using assms by (auto simp: perform_ai_analysis_def call_ollama_api_def Let_def)

lemma model_failure_result:
  assumes "extract_text P file_content filename = Inr t"
    and "endpoint P (length sent)
             (request_payload (create_analysis_prompt t playbook key_clauses risk_indicators))
           = reply"
    and "(\<exists>e. reply = TransportFailure e)
         \<or> (\<exists>status body. reply = HttpResponse status body \<and> status \<noteq> 200)"
  shows "\<exists>r. analyze_document P file_content filename sent
               = (Inr r, sent @ [request_payload (create_analysis_prompt t playbook key_clauses
                                                   risk_indicators)])
             \<and> structure_analysis P (fallback_analysis t) t = Inr r
             \<and> assembled_with is_integer r"
proof -
  from assembled_schema [OF fallback_analysis_schema, of P t t]
  obtain r where r: "structure_analysis P (fallback_analysis t) t = Inr r"
      and v: "assembled_with is_integer r"
    by blast
  from assms(1) model_failure_falls_back [OF assms(2,3)] r
  have "analyze_document P file_content filename sent
               = (Inr r, sent @ [request_payload (create_analysis_prompt t playbook key_clauses
                                                   risk_indicators)])"
    by (simp add: analyze_document_def)
  with r v show ?thesis
    by blast
qed

text \<open>
  Claim C5. After a failed model call the caller is to get a valid result. For an empty
  text file and an endpoint that refuses the connection, one request is sent, nothing is
  raised and the rule-based result comes back, with compliance score 0; but its section
  carries the score before clamping, -20, so the result does not match the canonical
  schema.
\<close>

theorem fallback_section_score_out_of_range:
  "(case analyze_document failing_platform [] ''empty.txt'' [] of
      (Inl e, sent) \<Rightarrow> False
    | (Inr r, sent) \<Rightarrow>
        length sent = 1
        \<and> path r [''overall_assessment'', ''compliance_score''] = Some (JInt 0)
        \<and> map (\<lambda>s. path s [''score'']) (sections r) = [Some (JInt (- 20))]
        \<and> \<not> assembled_valid r)"
  by code_simp

text \<open>
  The section of a fallback result always carries the score before clamping.
\<close>

lemma fallback_section_score_raw:
  "map (\<lambda>s. path s [''score'']) (sections (fallback_analysis t))
     = [Some (JInt (rule_score t))]"
  by (simp add: fallback_analysis_eq fallback_result_def sections_def field_def)

end
